theory Spec2Isabelle
  imports Main "HOL-Library.Word"
begin

section \<open>Go strings and the library functions the package calls\<close>

text \<open>
  A Go \<open>string\<close> and a \<open>[]byte\<close> are byte sequences: both are \<^typ>\<open>string\<close>, a list of
  8-bit characters. \<open>strings.TrimSpace\<close> and \<open>strings.ToLower\<close> are modelled on byte
  strings by their behaviour on ASCII: the white space of \<open>TrimSpace\<close> is Go's
  \<open>asciiSpace\<close> table (tab, line feed, vertical tab, form feed, carriage return,
  space), and \<open>ToLower\<close> adds \<open>'a' - 'A'\<close> to the bytes \<open>'A'..'Z'\<close>. Bytes from 0x80 on
  are kept as they are (Go consults its Unicode tables for them).
\<close>

type_synonym bytes = string

definition isSpace :: "char \<Rightarrow> bool" where
  "isSpace c =
     (let b = (of_char c :: nat)
      in b = 9 \<or> b = 10 \<or> b = 11 \<or> b = 12 \<or> b = 13 \<or> b = 32)"

definition toLower_byte :: "char \<Rightarrow> char" where
  "toLower_byte c =
     (if 65 \<le> (of_char c :: nat) \<and> (of_char c :: nat) \<le> 90
      then char_of ((of_char c :: nat) + 32) else c)"

definition TrimSpace :: "string \<Rightarrow> string" where
  "TrimSpace s = rev (dropWhile isSpace (rev (dropWhile isSpace s)))"

definition ToLower :: "string \<Rightarrow> string" where
  "ToLower s = map toLower_byte s"

definition HasPrefix :: "string \<Rightarrow> string \<Rightarrow> bool" where
  "HasPrefix s prefix = (length prefix \<le> length s \<and> take (length prefix) s = prefix)"

text \<open>\<open>strconv.FormatInt(i, 10)\<close>: the decimal digits, most significant first, after a
  minus sign for a negative number.\<close>

fun decimal_digits :: "nat \<Rightarrow> string" where
  "decimal_digits n =
     (if n < 10 then [char_of (48 + n)]
      else decimal_digits (n div 10) @ [char_of (48 + n mod 10)])"

declare decimal_digits.simps [simp del]

definition FormatInt :: "int \<Rightarrow> string" where
  "FormatInt i = (if i < 0 then CHR ''-'' # decimal_digits (nat (- i)) else decimal_digits (nat i))"

section \<open>Panics and errors\<close>

text \<open>
  A call into code that may panic returns an \<open>outcome\<close>: either it returns normally, or it
  panics with a value. A Go result pair \<open>(T, error)\<close> is a sum, \<open>Inl\<close> the error; a lone
  \<open>error\<close> result is an \<open>error option\<close>, \<open>None\<close> for \<open>nil\<close>.
\<close>

datatype panic = NilPointerDereference | PanicValue string

datatype 'a outcome = Returns 'a | Panics panic

text \<open>One constructor for each error the package builds; an error wrapped with \<open>%w\<close>
  carries the wrapped error, an error that prints the event id carries the id.
  \<open>ExternalError\<close> stands for the errors of collaborators (encoding/json, the broker,
  application code).\<close>

datatype error =
    ExternalError string
  | ErrSchemaVersionEmpty
  | ErrEventIdEmpty
  | ErrEventSourceEmpty
  | ErrEventTypeEmpty
  | ErrEventTimeNotPositive
  | ErrEventTimeTooFarAhead
  | ErrEventFactoryNil
  | ErrEventFactoryExists string
  | ErrEventFactoryNotFound string
  | ErrTopicEmpty
  | ErrEventNil
  | ErrEventInvalid error
  | ErrEventMetadataNil
  | ErrEventMetadataInvalid string error
  | ErrEventEncode string error
  | ErrEnvelopeEncode string error
  | ErrPublishFailed string error
  | ErrDataEmpty
  | ErrEnvelopeDecode error
  | ErrEnvelopeMetadataNil
  | ErrEnvelopeMetadataInvalid error
  | ErrEnvelopePayloadEmpty
  | ErrGetEventFactory error
  | ErrCreateEvent error
  | ErrEventDecode string error
  | ErrDecodedEventInvalid string error
  | ErrDecodedMetadataNil string
  | ErrSchemaVersionMismatch string
  | ErrEventIdMismatch string
  | ErrEventSourceMismatch string
  | ErrEventTypeMismatch string
  | ErrSubscribeTopicEmpty
  | ErrSubscribeGroupEmpty
  | ErrHandlerNil
  | ErrHandlerPanic panic string
  | ErrDeliveryNil
  | ErrDeliveryTopicEmpty
  | ErrDeliveryBodyEmpty
  | ErrUnsupportedContentType string
  | ErrHandlerFailed string error

section \<open>event.go: identity values, metadata, envelope\<close>

definition ContentTypeJson :: string where
  "ContentTypeJson = ''application/json''"

type_synonym SchemaVersion = string
type_synonym EventSource = string
type_synonym EventType = string
type_synonym int64 = "64 word"

definition SchemaVersion_Normalize :: "SchemaVersion \<Rightarrow> SchemaVersion" where
  "SchemaVersion_Normalize ver = ToLower (TrimSpace ver)"

definition SchemaVersion_IsEmpty :: "SchemaVersion \<Rightarrow> bool" where
  "SchemaVersion_IsEmpty ver = (length (SchemaVersion_Normalize ver) = 0)"

definition EventSource_Normalize :: "EventSource \<Rightarrow> EventSource" where
  "EventSource_Normalize es = ToLower (TrimSpace es)"

definition EventSource_IsEmpty :: "EventSource \<Rightarrow> bool" where
  "EventSource_IsEmpty es = (length (EventSource_Normalize es) = 0)"

definition EventType_Normalize :: "EventType \<Rightarrow> EventType" where
  "EventType_Normalize et = ToLower (TrimSpace et)"

definition EventType_IsEmpty :: "EventType \<Rightarrow> bool" where
  "EventType_IsEmpty et = (length (EventType_Normalize et) = 0)"

record Metadata =
  SchemaVersion :: SchemaVersion
  EventId :: string
  EventSource :: EventSource
  EventType :: EventType
  EventTime :: int64

record Envelope =
  Metadata :: "Metadata option"
  Payload :: bytes

definition Metadata_Normalize :: "Metadata \<Rightarrow> Metadata" where
  "Metadata_Normalize meta =
     meta\<lparr>SchemaVersion := SchemaVersion_Normalize (SchemaVersion meta),
          EventId := TrimSpace (EventId meta),
          EventSource := EventSource_Normalize (EventSource meta),
          EventType := EventType_Normalize (EventType meta)\<rparr>"

definition maxFutureSecs :: int64 where
  "maxFutureSecs = 300"

text \<open>\<open>Metadata.Validate\<close> has a pointer receiver and normalizes in place: the model
  returns the error together with the metadata as the call leaves it. \<open>now\<close> is what
  \<open>time.Now().Unix()\<close> reads; the sum \<open>now + maxFutureSecs\<close> is an \<open>int64\<close> sum and the
  comparisons are signed.\<close>

definition Metadata_Validate :: "int64 \<Rightarrow> Metadata \<Rightarrow> error option \<times> Metadata" where
  "Metadata_Validate now meta0 =
     (let meta = Metadata_Normalize meta0
      in if SchemaVersion_IsEmpty (SchemaVersion meta) then (Some ErrSchemaVersionEmpty, meta)
         else if length (EventId meta) = 0 then (Some ErrEventIdEmpty, meta)
         else if EventSource_IsEmpty (EventSource meta) then (Some ErrEventSourceEmpty, meta)
         else if EventType_IsEmpty (EventType meta) then (Some ErrEventTypeEmpty, meta)
         else if sint (EventTime meta) \<le> 0 then (Some ErrEventTimeNotPositive, meta)
         else if sint (now + maxFutureSecs) < sint (EventTime meta)
           then (Some ErrEventTimeTooFarAhead, meta)
         else (None, meta))"

section \<open>factory.go: the factory registry\<close>

text \<open>
  \<open>eventFactoryRegistry\<close> is a package-level \<open>map[string]EventFactory\<close>. Every function
  that works on it takes the map and returns it as it stands afterwards, next to the
  function's own result. The type \<open>'f\<close> is the type of (non-nil) factories; a nilable
  factory argument is an \<open>'f option\<close>. The lock serializes the calls and has no further
  part in a sequential model.
\<close>

type_synonym 'f registry = "string \<Rightarrow> 'f option"

definition buildEventFactoryKey :: "SchemaVersion \<Rightarrow> EventSource \<Rightarrow> EventType \<Rightarrow> string" where
  "buildEventFactoryKey scmVersion evtSource evtType =
     scmVersion @ ''|'' @ evtSource @ ''|'' @ evtType"

definition RegisterEventFactory ::
  "SchemaVersion \<Rightarrow> EventSource \<Rightarrow> EventType \<Rightarrow> 'f option \<Rightarrow> 'f registry
     \<Rightarrow> error option \<times> 'f registry" where
  "RegisterEventFactory scmVersion0 evtSource0 evtType0 evtFactory reg =
     (let scmVersion = SchemaVersion_Normalize scmVersion0
      in if SchemaVersion_IsEmpty scmVersion then (Some ErrSchemaVersionEmpty, reg)
         else let evtSource = EventSource_Normalize evtSource0
         in if EventSource_IsEmpty evtSource then (Some ErrEventSourceEmpty, reg)
         else let evtType = EventType_Normalize evtType0
         in if EventType_IsEmpty evtType then (Some ErrEventTypeEmpty, reg)
         else case evtFactory of
           None \<Rightarrow> (Some ErrEventFactoryNil, reg)
         | Some f \<Rightarrow>
             (let factoryKey = buildEventFactoryKey scmVersion evtSource evtType
              in case reg factoryKey of
                   Some _ \<Rightarrow> (Some (ErrEventFactoryExists factoryKey), reg)
                 | None \<Rightarrow> (None, reg(factoryKey \<mapsto> f))))"

definition GetEventFactory ::
  "SchemaVersion \<Rightarrow> EventSource \<Rightarrow> EventType \<Rightarrow> 'f registry
     \<Rightarrow> (error + 'f) \<times> 'f registry" where
  "GetEventFactory scmVersion0 evtSource0 evtType0 reg =
     (let scmVersion = SchemaVersion_Normalize scmVersion0
      in if SchemaVersion_IsEmpty scmVersion then (Inl ErrSchemaVersionEmpty, reg)
         else let evtSource = EventSource_Normalize evtSource0
         in if EventSource_IsEmpty evtSource then (Inl ErrEventSourceEmpty, reg)
         else let evtType = EventType_Normalize evtType0
         in if EventType_IsEmpty evtType then (Inl ErrEventTypeEmpty, reg)
         else let factoryKey = buildEventFactoryKey scmVersion evtSource evtType
         in case reg factoryKey of
              Some factory \<Rightarrow> (Inr factory, reg)
            | None \<Rightarrow> (Inl (ErrEventFactoryNotFound factoryKey), reg))"

definition ExistsEventFactory ::
  "SchemaVersion \<Rightarrow> EventSource \<Rightarrow> EventType \<Rightarrow> 'f registry \<Rightarrow> bool \<times> 'f registry" where
  "ExistsEventFactory scmVersion0 evtSource0 evtType0 reg =
     (let scmVersion = SchemaVersion_Normalize scmVersion0
      in if SchemaVersion_IsEmpty scmVersion then (False, reg)
         else let evtSource = EventSource_Normalize evtSource0
         in if EventSource_IsEmpty evtSource then (False, reg)
         else let evtType = EventType_Normalize evtType0
         in if EventType_IsEmpty evtType then (False, reg)
         else let factoryKey = buildEventFactoryKey scmVersion evtSource evtType
         in case reg factoryKey of
              Some _ \<Rightarrow> (True, reg)
            | None \<Rightarrow> (False, reg))"

section \<open>The header mapping (metadataToHeaders)\<close>

definition HeaderSchemaVersion :: string where
  "HeaderSchemaVersion = ''x-event-schema-version''"

definition HeaderEventId :: string where
  "HeaderEventId = ''x-event-id''"

definition HeaderEventSource :: string where
  "HeaderEventSource = ''x-event-source''"

definition HeaderEventType :: string where
  "HeaderEventType = ''x-event-type''"

definition HeaderEventTime :: string where
  "HeaderEventTime = ''x-event-time''"

text \<open>The \<open>map[string]string\<close> is built by one guarded assignment after the other; a
  \<open>nil\<close> pointer gives the empty map.\<close>

definition metadataToHeaders :: "Metadata option \<Rightarrow> (string \<rightharpoonup> string)" where
  "metadataToHeaders meta =
     (case meta of
        None \<Rightarrow> Map.empty
      | Some m \<Rightarrow>
          (let headers = Map.empty;
               headers = (if \<not> SchemaVersion_IsEmpty (SchemaVersion m)
                          then headers(HeaderSchemaVersion \<mapsto> SchemaVersion m) else headers);
               headers = (if 0 < length (EventId m)
                          then headers(HeaderEventId \<mapsto> EventId m) else headers);
               headers = (if \<not> EventSource_IsEmpty (EventSource m)
                          then headers(HeaderEventSource \<mapsto> EventSource m) else headers);
               headers = (if \<not> EventType_IsEmpty (EventType m)
                          then headers(HeaderEventType \<mapsto> EventType m) else headers);
               headers = (if 0 < sint (EventTime m)
                          then headers(HeaderEventTime \<mapsto> FormatInt (sint (EventTime m)))
                          else headers)
           in headers))"

section \<open>Collaborators: application events, encoding/json, the broker\<close>

text \<open>
  \<open>Event\<close> is an interface whose implementations are application code, and the events
  are serialized by \<open>encoding/json\<close>. The package sees them only through calls, which the
  model takes as parameters. \<open>'e\<close> is the type of event states (what an \<open>Event\<close> value
  points to).
  \<^item> \<open>Event_Validate\<close> is \<open>event.Validate()\<close>: it returns the error and the event as the
    call leaves it (a pointer receiver may change it), or panics.
  \<^item> \<open>Event_Metadata\<close> is \<open>event.Metadata()\<close>: the struct the returned pointer points
    to, \<open>None\<close> for \<open>nil\<close>.
  \<^item> \<open>Event_Metadata_assign\<close> is the event after the struct behind that pointer has
    been overwritten (\<open>metadata.Validate()\<close> normalizes it in place): the update of a
    field when the pointer points into the event, the identity when it points to a
    copy.
  \<^item> \<open>json_Marshal_Event\<close> is \<open>json.Marshal(event)\<close>; \<open>json_Unmarshal_Event\<close> is
    \<open>json.Unmarshal(payload, event)\<close>, the populated instance or an error.
  \<^item> \<open>json_Marshal_Envelope\<close> and \<open>json_Unmarshal_Envelope\<close> are \<open>json.Marshal\<close> and
    \<open>json.Unmarshal\<close> at the type \<open>Envelope\<close>, which runs no application code.
  Collaborator code is taken not to touch the factory registry.
\<close>

record 'e collaborators =
  Event_Validate :: "'e \<Rightarrow> (error option \<times> 'e) outcome"
  Event_Metadata :: "'e \<Rightarrow> Metadata option outcome"
  Event_Metadata_assign :: "'e \<Rightarrow> Metadata \<Rightarrow> 'e"
  json_Marshal_Event :: "'e \<Rightarrow> (error + bytes) outcome"
  json_Unmarshal_Event :: "bytes \<Rightarrow> 'e \<Rightarrow> (error + 'e) outcome"
  json_Marshal_Envelope :: "Envelope \<Rightarrow> error + bytes"
  json_Unmarshal_Envelope :: "bytes \<Rightarrow> error + Envelope"

text \<open>\<open>EventFactory\<close> is \<open>func() (Event, error)\<close>.\<close>

type_synonym 'e EventFactory = "unit \<Rightarrow> (error + 'e) outcome"

text \<open>\<open>broker.Message\<close> and \<open>broker.Delivery\<close> are declared by the broker package: the
  fields the package uses. \<open>Message\<close> of a delivery is taken as a pointer that may be
  \<open>nil\<close>, whose dereference then panics.\<close>

record Message =
  MsgId :: string
  Headers :: "string \<rightharpoonup> string"
  Body :: bytes
  ContentType :: string

record Delivery =
  Topic :: string
  Message :: "Message option"

section \<open>publisher.go\<close>

text \<open>\<open>Publish\<close> up to the call of the broker (the validation, the two encodings and the
  message with its headers): the trimmed topic and the message it hands over.\<close>

definition Publish_message ::
  "'e collaborators \<Rightarrow> int64 \<Rightarrow> string \<Rightarrow> 'e option \<Rightarrow> (error + string \<times> Message) outcome" where
  "Publish_message X now topic0 event =
     (let topic = TrimSpace topic0
      in if length topic = 0 then Returns (Inl ErrTopicEmpty)
         else case event of
           None \<Rightarrow> Returns (Inl ErrEventNil)
         | Some ev0 \<Rightarrow>
            (case Event_Validate X ev0 of
               Panics p \<Rightarrow> Panics p
             | Returns (Some err, ev1) \<Rightarrow> Returns (Inl (ErrEventInvalid err))
             | Returns (None, ev1) \<Rightarrow>
                (case Event_Metadata X ev1 of
                   Panics p \<Rightarrow> Panics p
                 | Returns None \<Rightarrow> Returns (Inl ErrEventMetadataNil)
                 | Returns (Some metadata0) \<Rightarrow>
                    (case Metadata_Validate now metadata0 of
                       (Some err, metadata) \<Rightarrow>
                         Returns (Inl (ErrEventMetadataInvalid (EventId metadata) err))
                     | (None, metadata) \<Rightarrow>
                        (let ev2 = Event_Metadata_assign X ev1 metadata
                         in case json_Marshal_Event X ev2 of
                              Panics p \<Rightarrow> Panics p
                            | Returns (Inl err) \<Rightarrow>
                                Returns (Inl (ErrEventEncode (EventId metadata) err))
                            | Returns (Inr payload) \<Rightarrow>
                               (let envelope = \<lparr>Metadata = Some metadata, Payload = payload\<rparr>
                                in case json_Marshal_Envelope X envelope of
                                     Inl err \<Rightarrow>
                                       Returns (Inl (ErrEnvelopeEncode (EventId metadata) err))
                                   | Inr data \<Rightarrow>
                                      (let message = \<lparr>MsgId = EventId metadata,
                                             Headers = Map.empty, Body = data,
                                             ContentType = ContentTypeJson\<rparr>;
                                           message = message\<lparr>Headers := Headers message ++
                                             metadataToHeaders (Some metadata)\<rparr>
                                       in Returns (Inr (topic, message)))))))))"

definition Publish ::
  "'e collaborators \<Rightarrow> ('c \<Rightarrow> string \<Rightarrow> Message \<Rightarrow> error option outcome) \<Rightarrow> int64
     \<Rightarrow> 'c \<Rightarrow> string \<Rightarrow> 'e option \<Rightarrow> error option outcome" where
  "Publish X broker_Publish now ctx topic0 event =
     (case Publish_message X now topic0 event of
        Panics p \<Rightarrow> Panics p
      | Returns (Inl err) \<Rightarrow> Returns (Some err)
      | Returns (Inr (topic, message)) \<Rightarrow>
         (case broker_Publish ctx topic message of
            Panics p \<Rightarrow> Panics p
          | Returns (Some err) \<Rightarrow> Returns (Some (ErrPublishFailed (MsgId message) err))
          | Returns None \<Rightarrow> Returns None))"

section \<open>The subscriber (decodeEvent, Subscribe)\<close>

text \<open>\<open>decodeEvent\<close> from the call of the factory on: the instance is created, populated,
  validated and cross-checked against the envelope's (validated) metadata. The event
  time is not compared.\<close>

definition decodeEvent_instance ::
  "'e collaborators \<Rightarrow> Metadata \<Rightarrow> bytes \<Rightarrow> 'e EventFactory \<Rightarrow> (error + 'e) outcome" where
  "decodeEvent_instance X metadata payload factory =
     (case factory () of
        Panics p \<Rightarrow> Panics p
      | Returns (Inl err) \<Rightarrow> Returns (Inl (ErrCreateEvent err))
      | Returns (Inr event0) \<Rightarrow>
         (case json_Unmarshal_Event X payload event0 of
            Panics p \<Rightarrow> Panics p
          | Returns (Inl err) \<Rightarrow> Returns (Inl (ErrEventDecode (EventId metadata) err))
          | Returns (Inr event1) \<Rightarrow>
             (case Event_Validate X event1 of
                Panics p \<Rightarrow> Panics p
              | Returns (Some err, event) \<Rightarrow>
                  Returns (Inl (ErrDecodedEventInvalid (EventId metadata) err))
              | Returns (None, event) \<Rightarrow>
                 (case Event_Metadata X event of
                    Panics p \<Rightarrow> Panics p
                  | Returns None \<Rightarrow> Returns (Inl (ErrDecodedMetadataNil (EventId metadata)))
                  | Returns (Some eventMetadata) \<Rightarrow>
                      if SchemaVersion eventMetadata \<noteq> SchemaVersion metadata
                        then Returns (Inl (ErrSchemaVersionMismatch (EventId metadata)))
                      else if EventId eventMetadata \<noteq> EventId metadata
                        then Returns (Inl (ErrEventIdMismatch (EventId metadata)))
                      else if EventSource eventMetadata \<noteq> EventSource metadata
                        then Returns (Inl (ErrEventSourceMismatch (EventId metadata)))
                      else if EventType eventMetadata \<noteq> EventType metadata
                        then Returns (Inl (ErrEventTypeMismatch (EventId metadata)))
                      else Returns (Inr event)))))"

definition decodeEvent ::
  "'e collaborators \<Rightarrow> int64 \<Rightarrow> bytes \<Rightarrow> 'e EventFactory registry
     \<Rightarrow> (error + 'e) outcome \<times> 'e EventFactory registry" where
  "decodeEvent X now data reg =
     (if length data = 0 then (Returns (Inl ErrDataEmpty), reg)
      else case json_Unmarshal_Envelope X data of
        Inl err \<Rightarrow> (Returns (Inl (ErrEnvelopeDecode err)), reg)
      | Inr envelope \<Rightarrow>
         (case Metadata envelope of
            None \<Rightarrow> (Returns (Inl ErrEnvelopeMetadataNil), reg)
          | Some metadata0 \<Rightarrow>
             (case Metadata_Validate now metadata0 of
                (Some err, metadata) \<Rightarrow> (Returns (Inl (ErrEnvelopeMetadataInvalid err)), reg)
              | (None, metadata) \<Rightarrow>
                  if length (Payload envelope) = 0
                    then (Returns (Inl ErrEnvelopePayloadEmpty), reg)
                  else
                    (case GetEventFactory (SchemaVersion metadata) (EventSource metadata)
                            (EventType metadata) reg of
                       (Inl err, reg1) \<Rightarrow> (Returns (Inl (ErrGetEventFactory err)), reg1)
                     | (Inr factory, reg1) \<Rightarrow>
                         (decodeEvent_instance X metadata (Payload envelope) factory, reg1)))))"

text \<open>\<open>EventHandler\<close> is \<open>func(ctx, topic, event) error\<close>: the handler returns its error
  and the event as it leaves it, or panics.\<close>

type_synonym ('c, 'e) EventHandler = "'c \<Rightarrow> string \<Rightarrow> 'e \<Rightarrow> (error option \<times> 'e) outcome"

text \<open>The callback of \<open>Subscribe\<close> after its content-type check: decode, then the
  handler.\<close>

definition wrapHandler_dispatch ::
  "'e collaborators \<Rightarrow> ('c, 'e) EventHandler \<Rightarrow> int64 \<Rightarrow> 'c \<Rightarrow> string \<Rightarrow> bytes
     \<Rightarrow> 'e EventFactory registry \<Rightarrow> error option outcome \<times> 'e EventFactory registry" where
  "wrapHandler_dispatch X handler now ctx msgTopic body reg =
     (case decodeEvent X now body reg of
        (Panics p, reg1) \<Rightarrow> (Panics p, reg1)
      | (Returns (Inl err), reg1) \<Rightarrow> (Returns (Some err), reg1)
      | (Returns (Inr event), reg1) \<Rightarrow>
         (case handler ctx msgTopic event of
            Panics p \<Rightarrow> (Panics p, reg1)
          | Returns (None, event1) \<Rightarrow> (Returns None, reg1)
          | Returns (Some err, event1) \<Rightarrow>
             (case Event_Metadata X event1 of
                Panics p \<Rightarrow> (Panics p, reg1)
              | Returns None \<Rightarrow> (Panics NilPointerDereference, reg1)
              | Returns (Some m) \<Rightarrow> (Returns (Some (ErrHandlerFailed (EventId m) err)), reg1))))"

text \<open>The body of the callback, without its deferred function.\<close>

definition wrapHandler_body ::
  "'e collaborators \<Rightarrow> ('c, 'e) EventHandler \<Rightarrow> int64 \<Rightarrow> 'c \<Rightarrow> Delivery option
     \<Rightarrow> 'e EventFactory registry \<Rightarrow> error option outcome \<times> 'e EventFactory registry" where
  "wrapHandler_body X handler now ctx delivery reg =
     (case delivery of
        None \<Rightarrow> (Returns (Some ErrDeliveryNil), reg)
      | Some d \<Rightarrow>
         (let msgTopic = TrimSpace (Topic d)
          in if length msgTopic = 0 then (Returns (Some ErrDeliveryTopicEmpty), reg)
             else case Message d of
               None \<Rightarrow> (Panics NilPointerDereference, reg)
             | Some msg \<Rightarrow>
                 if length (Body msg) = 0 then (Returns (Some ErrDeliveryBodyEmpty), reg)
                 else let contentType = ToLower (TrimSpace (ContentType msg))
                 in if \<not> HasPrefix contentType ContentTypeJson
                      then (Returns (Some (ErrUnsupportedContentType contentType)), reg)
                    else wrapHandler_dispatch X handler now ctx msgTopic (Body msg) reg))"

text \<open>The callback: the deferred function recovers a panic of the body and makes it the
  returned error, with the stack trace \<open>debug.Stack()\<close> gives at that moment (\<open>stack\<close>).
  What \<open>recover()\<close> returns for a panic is not \<open>nil\<close> (the package needs Go 1.21 for
  \<open>slices\<close>, where \<open>panic(nil)\<close> panics with a \<open>PanicNilError\<close>).\<close>

definition wrapHandler ::
  "'e collaborators \<Rightarrow> ('c, 'e) EventHandler \<Rightarrow> int64 \<Rightarrow> string \<Rightarrow> 'c \<Rightarrow> Delivery option
     \<Rightarrow> 'e EventFactory registry \<Rightarrow> error option outcome \<times> 'e EventFactory registry" where
  "wrapHandler X handler now stack ctx delivery reg =
     (case wrapHandler_body X handler now ctx delivery reg of
        (Panics panicInfo, reg1) \<Rightarrow> (Returns (Some (ErrHandlerPanic panicInfo stack)), reg1)
      | (Returns finalErr, reg1) \<Rightarrow> (Returns finalErr, reg1))"

text \<open>\<open>Subscribe\<close> checks its arguments and registers the callback with the broker
  (\<open>broker_Subscribe\<close>, a parameter).\<close>

definition Subscribe ::
  "'e collaborators
     \<Rightarrow> ('c \<Rightarrow> string
          \<Rightarrow> (int64 \<Rightarrow> string \<Rightarrow> 'c \<Rightarrow> Delivery option \<Rightarrow> 'e EventFactory registry
                \<Rightarrow> error option outcome \<times> 'e EventFactory registry)
          \<Rightarrow> string \<Rightarrow> error + string)
     \<Rightarrow> 'c \<Rightarrow> string \<Rightarrow> string \<Rightarrow> ('c, 'e) EventHandler option \<Rightarrow> error + string" where
  "Subscribe X broker_Subscribe ctx topic0 group0 handler =
     (let topic = TrimSpace topic0
      in if length topic = 0 then Inl ErrSubscribeTopicEmpty
         else let group = TrimSpace group0
         in if length group = 0 then Inl ErrSubscribeGroupEmpty
         else case handler of
           None \<Rightarrow> Inl ErrHandlerNil
         | Some h \<Rightarrow> broker_Subscribe ctx topic (wrapHandler X h) group)"

section \<open>A sample application event\<close>

text \<open>
  An application event type, its factory and the collaborators around it, to run the
  definitions on concrete inputs. \<open>OrderCreated\<close> holds its metadata in a field;
  \<open>Metadata()\<close> returns a pointer to that field and \<open>Validate()\<close> accepts every event. The
  two json functions are the finite tables of \<open>encoding/json\<close> on the byte strings below
  (the payload of an envelope is base64 in JSON).
\<close>

record OrderCreated =
  Meta :: Metadata
  OrderNo :: string

definition sample_metadata :: Metadata where
  "sample_metadata =
     \<lparr>SchemaVersion = ''v1'', EventId = ''evt-1'', EventSource = ''orders'',
      EventType = ''order.created'', EventTime = 1700000000\<rparr>"

definition sample_event :: OrderCreated where
  "sample_event = \<lparr>Meta = sample_metadata, OrderNo = ''A-17''\<rparr>"

definition sample_payload :: bytes where
  "sample_payload = ''{\"meta\":{\"schemaVersion\":\"v1\",\"eventId\":\"evt-1\",\"eventSource\":\"orders\",\"eventType\":\"order.created\",\"eventTime\":1700000000},\"orderNo\":\"A-17\"}''"

definition sample_wire :: bytes where
  "sample_wire = ''{\"metadata\":{\"schemaVersion\":\"v1\",\"eventId\":\"evt-1\",\"eventSource\":\"orders\",\"eventType\":\"order.created\",\"eventTime\":1700000000},\"payload\":\"eyJtZXRhIjp7InNjaGVtYVZlcnNpb24iOiJ2MSIsImV2ZW50SWQiOiJldnQtMSIsImV2ZW50U291cmNlIjoib3JkZXJzIiwiZXZlbnRUeXBlIjoib3JkZXIuY3JlYXRlZCIsImV2ZW50VGltZSI6MTcwMDAwMDAwMH0sIm9yZGVyTm8iOiJBLTE3In0=\"}''"

text \<open>The same envelope around a payload whose own event id is \<open>evt-2\<close>, and around a
  payload whose own event time is 1600000000.\<close>

definition other_id_payload :: bytes where
  "other_id_payload = ''{\"meta\":{\"schemaVersion\":\"v1\",\"eventId\":\"evt-2\",\"eventSource\":\"orders\",\"eventType\":\"order.created\",\"eventTime\":1700000000},\"orderNo\":\"A-17\"}''"

definition other_id_wire :: bytes where
  "other_id_wire = ''{\"metadata\":{\"schemaVersion\":\"v1\",\"eventId\":\"evt-1\",\"eventSource\":\"orders\",\"eventType\":\"order.created\",\"eventTime\":1700000000},\"payload\":\"eyJtZXRhIjp7InNjaGVtYVZlcnNpb24iOiJ2MSIsImV2ZW50SWQiOiJldnQtMiIsImV2ZW50U291cmNlIjoib3JkZXJzIiwiZXZlbnRUeXBlIjoib3JkZXIuY3JlYXRlZCIsImV2ZW50VGltZSI6MTcwMDAwMDAwMH0sIm9yZGVyTm8iOiJBLTE3In0=\"}''"

definition other_time_payload :: bytes where
  "other_time_payload = ''{\"meta\":{\"schemaVersion\":\"v1\",\"eventId\":\"evt-1\",\"eventSource\":\"orders\",\"eventType\":\"order.created\",\"eventTime\":1600000000},\"orderNo\":\"A-17\"}''"

definition other_time_wire :: bytes where
  "other_time_wire = ''{\"metadata\":{\"schemaVersion\":\"v1\",\"eventId\":\"evt-1\",\"eventSource\":\"orders\",\"eventType\":\"order.created\",\"eventTime\":1700000000},\"payload\":\"eyJtZXRhIjp7InNjaGVtYVZlcnNpb24iOiJ2MSIsImV2ZW50SWQiOiJldnQtMSIsImV2ZW50U291cmNlIjoib3JkZXJzIiwiZXZlbnRUeXBlIjoib3JkZXIuY3JlYXRlZCIsImV2ZW50VGltZSI6MTYwMDAwMDAwMH0sIm9yZGVyTm8iOiJBLTE3In0=\"}''"

definition sample_json_error :: error where
  "sample_json_error = ExternalError ''json: input outside the sample table''"

definition sample_Unmarshal_Event :: "bytes \<Rightarrow> OrderCreated \<Rightarrow> (error + OrderCreated) outcome" where
  "sample_Unmarshal_Event payload event0 =
     (if payload = sample_payload then Returns (Inr sample_event)
      else if payload = other_id_payload
        then Returns (Inr (sample_event\<lparr>Meta := sample_metadata\<lparr>EventId := ''evt-2''\<rparr>\<rparr>))
      else if payload = other_time_payload
        then Returns (Inr (sample_event\<lparr>Meta := sample_metadata\<lparr>EventTime := 1600000000\<rparr>\<rparr>))
      else Returns (Inl sample_json_error))"

definition sample_Unmarshal_Envelope :: "bytes \<Rightarrow> error + Envelope" where
  "sample_Unmarshal_Envelope data =
     (if data = sample_wire
        then Inr \<lparr>Metadata = Some sample_metadata, Payload = sample_payload\<rparr>
      else if data = other_id_wire
        then Inr \<lparr>Metadata = Some sample_metadata, Payload = other_id_payload\<rparr>
      else if data = other_time_wire
        then Inr \<lparr>Metadata = Some sample_metadata, Payload = other_time_payload\<rparr>
      else Inl sample_json_error)"

definition sample_collaborators :: "OrderCreated collaborators" where
  "sample_collaborators =
     \<lparr>Event_Validate = (\<lambda>e. Returns (None, e)),
      Event_Metadata = (\<lambda>e. Returns (Some (Meta e))),
      Event_Metadata_assign = (\<lambda>e m. e\<lparr>Meta := m\<rparr>),
      json_Marshal_Event =
        (\<lambda>e. if e = sample_event then Returns (Inr sample_payload)
             else Returns (Inl sample_json_error)),
      json_Unmarshal_Event = sample_Unmarshal_Event,
      json_Marshal_Envelope =
        (\<lambda>envelope.
           if envelope = \<lparr>Metadata = Some sample_metadata, Payload = sample_payload\<rparr>
           then Inr sample_wire else Inl sample_json_error),
      json_Unmarshal_Envelope = sample_Unmarshal_Envelope\<rparr>"

definition sample_factory :: "OrderCreated EventFactory" where
  "sample_factory =
     (\<lambda>_. Returns (Inr \<lparr>Meta = \<lparr>SchemaVersion = [], EventId = [], EventSource = [],
                                 EventType = [], EventTime = 0\<rparr>, OrderNo = []\<rparr>))"

definition sample_registry :: "OrderCreated EventFactory registry" where
  "sample_registry = [''v1|orders|order.created'' \<mapsto> sample_factory]"

definition panicking_handler :: "(unit, OrderCreated) EventHandler" where
  "panicking_handler = (\<lambda>ctx topic event. Panics (PanicValue ''handler failed hard''))"


definition sample_delivery :: "string \<Rightarrow> Delivery" where
  "sample_delivery contentType =
     \<lparr>Topic = ''orders'',
      Message = Some \<lparr>MsgId = ''evt-1'', Headers = Map.empty, Body = sample_wire,
                       ContentType = contentType\<rparr>\<rparr>"

text \<open>A second event type setting: \<open>Metadata()\<close> returns a pointer to a copy of the
  field (a method with a value receiver), so that normalizing the returned struct does
  not change the event; the event below carries the schema version \<open>V1\<close> in upper
  case. Its payload and the envelope \<open>Publish\<close> builds around it (with the normalized
  metadata) follow.\<close>

definition uppercase_event :: OrderCreated where
  "uppercase_event = \<lparr>Meta = sample_metadata\<lparr>SchemaVersion := ''V1''\<rparr>, OrderNo = ''A-17''\<rparr>"

definition uppercase_payload :: bytes where
  "uppercase_payload = ''{\"meta\":{\"schemaVersion\":\"V1\",\"eventId\":\"evt-1\",\"eventSource\":\"orders\",\"eventType\":\"order.created\",\"eventTime\":1700000000},\"orderNo\":\"A-17\"}''"

definition uppercase_wire :: bytes where
  "uppercase_wire = ''{\"metadata\":{\"schemaVersion\":\"v1\",\"eventId\":\"evt-1\",\"eventSource\":\"orders\",\"eventType\":\"order.created\",\"eventTime\":1700000000},\"payload\":\"eyJtZXRhIjp7InNjaGVtYVZlcnNpb24iOiJWMSIsImV2ZW50SWQiOiJldnQtMSIsImV2ZW50U291cmNlIjoib3JkZXJzIiwiZXZlbnRUeXBlIjoib3JkZXIuY3JlYXRlZCIsImV2ZW50VGltZSI6MTcwMDAwMDAwMH0sIm9yZGVyTm8iOiJBLTE3In0=\"}''"

definition copying_collaborators :: "OrderCreated collaborators" where
  "copying_collaborators =
     \<lparr>Event_Validate = (\<lambda>e. Returns (None, e)),
      Event_Metadata = (\<lambda>e. Returns (Some (Meta e))),
      Event_Metadata_assign = (\<lambda>e m. e),
      json_Marshal_Event =
        (\<lambda>e. if e = uppercase_event then Returns (Inr uppercase_payload)
             else Returns (Inl sample_json_error)),
      json_Unmarshal_Event =
        (\<lambda>payload event0. if payload = uppercase_payload then Returns (Inr uppercase_event)
             else Returns (Inl sample_json_error)),
      json_Marshal_Envelope =
        (\<lambda>envelope.
           if envelope = \<lparr>Metadata = Some sample_metadata, Payload = uppercase_payload\<rparr>
           then Inr uppercase_wire else Inl sample_json_error),
      json_Unmarshal_Envelope =
        (\<lambda>data. if data = uppercase_wire
           then Inr \<lparr>Metadata = Some sample_metadata, Payload = uppercase_payload\<rparr>
           else Inl sample_json_error)\<rparr>"

section \<open>Normalization\<close>

lemma of_char_toLower_byte:
  "(of_char (toLower_byte c) :: nat) =
     (if 65 \<le> (of_char c :: nat) \<and> (of_char c :: nat) \<le> 90 then of_char c + 32
      else of_char c)"
  by (simp add: toLower_byte_def)

lemma isSpace_toLower_byte: "isSpace (toLower_byte c) = isSpace c"
  by (simp add: isSpace_def Let_def of_char_toLower_byte)

lemma toLower_byte_idem: "toLower_byte (toLower_byte c) = toLower_byte c"
  by (rule of_char_eqI [where ?'a = nat]) (simp add: of_char_toLower_byte)

lemma ToLower_idem: "ToLower (ToLower s) = ToLower s"
  by (simp add: ToLower_def toLower_byte_idem)

lemma dropWhile_isSpace_ToLower:
  "dropWhile isSpace (ToLower s) = ToLower (dropWhile isSpace s)"
  by (induction s) (simp_all add: ToLower_def isSpace_toLower_byte)

lemma TrimSpace_ToLower: "TrimSpace (ToLower s) = ToLower (TrimSpace s)"
proof -
  have "rev (ToLower s) = ToLower (rev s)" for s
    by (simp add: ToLower_def rev_map)
  then show ?thesis
    by (simp add: TrimSpace_def dropWhile_isSpace_ToLower)
qed

lemma dropWhile_rev_dropWhile_rev:
  assumes "t = [] \<or> \<not> P (hd t)"
  shows "dropWhile P (rev (dropWhile P (rev t))) = rev (dropWhile P (rev t))"
proof (cases t)
  case Nil
  then show ?thesis by simp
next
  case (Cons x xs)
  with assms have nx: "\<not> P x" by simp
  have "\<exists>ys. rev (dropWhile P (rev xs @ [x])) = x # ys"
  proof (cases "\<forall>z\<in>set (rev xs). P z")
    case True
    then have "dropWhile P (rev xs @ [x]) = dropWhile P [x]"
      by (intro dropWhile_append2) blast
    then show ?thesis using nx by simp
  next
    case False
    then obtain z where "z \<in> set (rev xs)" "\<not> P z" by blast
    then have "dropWhile P (rev xs @ [x]) = dropWhile P (rev xs) @ [x]"
      by (rule dropWhile_append1)
    then show ?thesis by simp
  qed
  then obtain ys where "rev (dropWhile P (rev xs @ [x])) = x # ys" ..
  then show ?thesis using nx by (simp add: Cons)
qed

lemma dropWhile_trimmed_right:
  "dropWhile P (rev (dropWhile P (rev (dropWhile P s)))) = rev (dropWhile P (rev (dropWhile P s)))"
proof (rule dropWhile_rev_dropWhile_rev)
  show "dropWhile P s = [] \<or> \<not> P (hd (dropWhile P s))"
    by (cases "dropWhile P s = []") (simp_all add: hd_dropWhile)
qed

lemma TrimSpace_idem: "TrimSpace (TrimSpace s) = TrimSpace s"
  by (simp add: TrimSpace_def dropWhile_trimmed_right)

lemma Normalize_idem_aux: "ToLower (TrimSpace (ToLower (TrimSpace s))) = ToLower (TrimSpace s)"
  by (simp add: TrimSpace_ToLower TrimSpace_idem ToLower_idem)

text \<open>
  Claim C9. For every identity value of each of the three identity types,
  normalizing an already normalized value gives it back: \<open>Normalize\<close> is idempotent. Each
  \<open>Normalize\<close> is a function of its receiver alone (it reads no other state), which is how
  it is embedded.
\<close>

theorem Normalize_idempotent:
  "SchemaVersion_Normalize (SchemaVersion_Normalize v) = SchemaVersion_Normalize v
   \<and> EventSource_Normalize (EventSource_Normalize v) = EventSource_Normalize v
   \<and> EventType_Normalize (EventType_Normalize v) = EventType_Normalize v"
  by (simp add: SchemaVersion_Normalize_def EventSource_Normalize_def EventType_Normalize_def
      Normalize_idem_aux)

section \<open>Evaluating the string functions on literals\<close>

lemmas string_eval =
  isSpace_def toLower_byte_def TrimSpace_def ToLower_def HasPrefix_def char_of_eq_iff
  SchemaVersion_Normalize_def EventSource_Normalize_def EventType_Normalize_def
  SchemaVersion_IsEmpty_def EventSource_IsEmpty_def EventType_IsEmpty_def
  buildEventFactoryKey_def

lemma decimal_digits_lt10: "n < 10 \<Longrightarrow> decimal_digits n = [char_of (48 + n)]"
  by (simp add: decimal_digits.simps)

lemma decimal_digits_ge10:
  "10 \<le> n \<Longrightarrow> decimal_digits n = decimal_digits (n div 10) @ [char_of (48 + n mod 10)]"
  by (subst decimal_digits.simps) simp

section \<open>The factory registry\<close>

lemma SchemaVersion_IsEmpty_Normalize:
  "SchemaVersion_IsEmpty (SchemaVersion_Normalize v) = SchemaVersion_IsEmpty v"
  by (simp add: SchemaVersion_IsEmpty_def SchemaVersion_Normalize_def Normalize_idem_aux)

lemma EventSource_IsEmpty_Normalize:
  "EventSource_IsEmpty (EventSource_Normalize v) = EventSource_IsEmpty v"
  by (simp add: EventSource_IsEmpty_def EventSource_Normalize_def Normalize_idem_aux)

lemma EventType_IsEmpty_Normalize:
  "EventType_IsEmpty (EventType_Normalize v) = EventType_IsEmpty v"
  by (simp add: EventType_IsEmpty_def EventType_Normalize_def Normalize_idem_aux)

lemmas IsEmpty_Normalize =
  SchemaVersion_IsEmpty_Normalize EventSource_IsEmpty_Normalize EventType_IsEmpty_Normalize

lemma GetEventFactory_nonempty:
  assumes "\<not> SchemaVersion_IsEmpty v" "\<not> EventSource_IsEmpty s" "\<not> EventType_IsEmpty t"
  shows "GetEventFactory v s t reg =
     (case reg (buildEventFactoryKey (SchemaVersion_Normalize v) (EventSource_Normalize s)
                  (EventType_Normalize t)) of
        Some factory \<Rightarrow> (Inr factory, reg)
      | None \<Rightarrow> (Inl (ErrEventFactoryNotFound (buildEventFactoryKey (SchemaVersion_Normalize v)
                  (EventSource_Normalize s) (EventType_Normalize t))), reg))"
  using assms by (simp add: GetEventFactory_def IsEmpty_Normalize Let_def)

lemma RegisterEventFactory_nonempty:
  assumes "\<not> SchemaVersion_IsEmpty v" "\<not> EventSource_IsEmpty s" "\<not> EventType_IsEmpty t"
  shows "RegisterEventFactory v s t (Some f) reg =
     (case reg (buildEventFactoryKey (SchemaVersion_Normalize v) (EventSource_Normalize s)
                  (EventType_Normalize t)) of
        Some x \<Rightarrow> (Some (ErrEventFactoryExists (buildEventFactoryKey (SchemaVersion_Normalize v)
                  (EventSource_Normalize s) (EventType_Normalize t))), reg)
      | None \<Rightarrow> (None, reg(buildEventFactoryKey (SchemaVersion_Normalize v)
                  (EventSource_Normalize s) (EventType_Normalize t) \<mapsto> f)))"
  using assms by (simp add: RegisterEventFactory_def IsEmpty_Normalize Let_def)

text \<open>
  Claim C4. Take a triple (version, source, type) that is not empty after normalization
  and two factories \<open>f\<close> and \<open>g\<close> (both non-nil: \<open>Some f\<close>, \<open>Some g\<close>). Once
  \<open>RegisterEventFactory\<close> has succeeded for the triple with \<open>f\<close>, leaving the registry
  \<open>reg1\<close>, a second registration of the triple with \<open>g\<close> returns the duplicate-key error
  \<open>ErrEventFactoryExists\<close> for the triple's key and leaves the registry as it was, and
  \<open>GetEventFactory\<close> on the registry the failed call leaves still returns \<open>f\<close>.
\<close>

theorem register_twice_is_duplicate:
  assumes "\<not> SchemaVersion_IsEmpty v" and "\<not> EventSource_IsEmpty s"
    and "\<not> EventType_IsEmpty t"
    and first: "RegisterEventFactory v s t (Some f) reg = (None, reg1)"
  shows "RegisterEventFactory v s t (Some g) reg1 =
           (Some (ErrEventFactoryExists
              (buildEventFactoryKey (SchemaVersion_Normalize v) (EventSource_Normalize s)
                 (EventType_Normalize t))), reg1)
       \<and> GetEventFactory v s t (snd (RegisterEventFactory v s t (Some g) reg1)) = (Inr f, reg1)"
proof -
  let ?k = "buildEventFactoryKey (SchemaVersion_Normalize v) (EventSource_Normalize s)
              (EventType_Normalize t)"
  from first assms(1-3) have "reg1 = reg(?k \<mapsto> f)"
    by (simp add: RegisterEventFactory_nonempty split: option.splits)
  then have k: "reg1 ?k = Some f" by simp
  have second: "RegisterEventFactory v s t (Some g) reg1 = (Some (ErrEventFactoryExists ?k), reg1)"
    using assms(1-3) k by (simp add: RegisterEventFactory_nonempty)
  have "GetEventFactory v s t reg1 = (Inr f, reg1)"
    using assms(1-3) k by (simp add: GetEventFactory_nonempty)
  with second show ?thesis by simp
qed

theorem register_twice_is_duplicate_witness:
  "RegisterEventFactory '' V1 '' ''Orders'' ''Order.Created'' (Some (7 :: nat)) Map.empty =
     (None, [''v1|orders|order.created'' \<mapsto> 7])
   \<and> RegisterEventFactory '' V1 '' ''Orders'' ''Order.Created'' (Some (9 :: nat))
        [''v1|orders|order.created'' \<mapsto> 7] =
     (Some (ErrEventFactoryExists ''v1|orders|order.created''),
      [''v1|orders|order.created'' \<mapsto> 7])
   \<and> GetEventFactory '' V1 '' ''Orders'' ''Order.Created''
        (snd (RegisterEventFactory '' V1 '' ''Orders'' ''Order.Created'' (Some (9 :: nat))
           [''v1|orders|order.created'' \<mapsto> 7])) =
     (Inr 7, [''v1|orders|order.created'' \<mapsto> 7])"
proof -
  have e1: "\<not> SchemaVersion_IsEmpty '' V1 ''" by (simp add: string_eval)
  have e2: "\<not> EventSource_IsEmpty ''Orders''" by (simp add: string_eval)
  have e3: "\<not> EventType_IsEmpty ''Order.Created''" by (simp add: string_eval)
  have key: "buildEventFactoryKey (SchemaVersion_Normalize '' V1 '')
      (EventSource_Normalize ''Orders'') (EventType_Normalize ''Order.Created'') =
      ''v1|orders|order.created''"
    by (simp add: string_eval)
  have first: "RegisterEventFactory '' V1 '' ''Orders'' ''Order.Created'' (Some (7 :: nat))
      Map.empty = (None, [''v1|orders|order.created'' \<mapsto> 7])"
    by (simp add: RegisterEventFactory_nonempty [OF e1 e2 e3] key)
  note th = register_twice_is_duplicate [OF e1 e2 e3 first, of 9, unfolded key]
  from th have second: "RegisterEventFactory '' V1 '' ''Orders'' ''Order.Created''
      (Some (9 :: nat)) [''v1|orders|order.created'' \<mapsto> 7] =
      (Some (ErrEventFactoryExists ''v1|orders|order.created''),
       [''v1|orders|order.created'' \<mapsto> 7])"
    by (rule conjunct1)
  from th have get: "GetEventFactory '' V1 '' ''Orders'' ''Order.Created''
      (snd (RegisterEventFactory '' V1 '' ''Orders'' ''Order.Created'' (Some (9 :: nat))
         [''v1|orders|order.created'' \<mapsto> 7])) =
      (Inr 7, [''v1|orders|order.created'' \<mapsto> 7])"
    by (rule conjunct2)
  from first second get show ?thesis by (intro conjI)
qed

text \<open>
  Claim C10. For every registry and every triple, \<open>ExistsEventFactory\<close> answers true
  exactly when \<open>GetEventFactory\<close> on the same registry returns a factory; it leaves the
  registry as it is; and for a triple with a component that is empty after
  normalization it answers false where \<open>GetEventFactory\<close> returns an error. Its result
  is a boolean (it has no error result).
\<close>

theorem exists_iff_get_succeeds:
  "fst (ExistsEventFactory v s t reg) = (\<exists>f. fst (GetEventFactory v s t reg) = Inr f)
   \<and> snd (ExistsEventFactory v s t reg) = reg
   \<and> (SchemaVersion_IsEmpty v \<or> EventSource_IsEmpty s \<or> EventType_IsEmpty t \<longrightarrow>
        fst (ExistsEventFactory v s t reg) = False
        \<and> (\<exists>err. fst (GetEventFactory v s t reg) = Inl err))"
  by (simp add: ExistsEventFactory_def GetEventFactory_def IsEmpty_Normalize Let_def
      split: option.splits)

theorem exists_iff_get_succeeds_witness:
  "EventSource_IsEmpty ''   ''
   \<and> fst (ExistsEventFactory ''v1'' ''   '' ''order.created'' sample_registry) = False
   \<and> fst (GetEventFactory ''v1'' ''   '' ''order.created'' sample_registry) =
       Inl ErrEventSourceEmpty
   \<and> fst (ExistsEventFactory ''V1'' ''Orders '' ''order.created'' sample_registry) = True
   \<and> fst (GetEventFactory ''V1'' ''Orders '' ''order.created'' sample_registry) =
       Inr sample_factory"
proof -
  have e: "EventSource_IsEmpty ''   ''" by (simp add: string_eval)
  have g1: "fst (GetEventFactory ''v1'' ''   '' ''order.created'' sample_registry) =
      Inl ErrEventSourceEmpty"
    by (simp add: GetEventFactory_def Let_def string_eval)
  have g2: "fst (GetEventFactory ''V1'' ''Orders '' ''order.created'' sample_registry) =
      Inr sample_factory"
    by (simp add: GetEventFactory_def Let_def string_eval sample_registry_def)
  from exists_iff_get_succeeds [of "''v1''" "''   ''" "''order.created''" sample_registry]
    exists_iff_get_succeeds [of "''V1''" "''Orders ''" "''order.created''" sample_registry]
    e g1 g2
  show ?thesis by simp
qed

section \<open>Metadata validation\<close>

lemma EventTime_Normalize: "EventTime (Metadata_Normalize m) = EventTime m"
  by (simp add: Metadata_Normalize_def)

lemma Metadata_Validate_identity_valid:
  assumes "\<not> SchemaVersion_IsEmpty (SchemaVersion m)" and "TrimSpace (EventId m) \<noteq> []"
    and "\<not> EventSource_IsEmpty (EventSource m)" and "\<not> EventType_IsEmpty (EventType m)"
  shows "fst (Metadata_Validate now m) =
     (if sint (EventTime m) \<le> 0 then Some ErrEventTimeNotPositive
      else if sint (now + maxFutureSecs) < sint (EventTime m) then Some ErrEventTimeTooFarAhead
      else None)"
  using assms
  by (simp add: Metadata_Validate_def Let_def IsEmpty_Normalize Metadata_Normalize_def)

lemma sint_add_no_wrap:
  fixes a b :: int64
  assumes "- (2 ^ 63) \<le> sint a + sint b" and "sint a + sint b < 2 ^ 63"
  shows "sint (a + b) = sint a + sint b"
  using assms by (simp add: sint_word_ariths signed_take_bit_int_eq_self)

text \<open>
  Claim C3. Let the identity fields of the metadata be valid (schema version, source and
  type not empty after normalization, event id not empty after trimming), and let the
  validator's clock read \<open>now\<close>, a time for which \<open>now + 299\<close> is positive and
  \<open>now + 301\<close> does not leave the range of \<open>int64\<close>. Then \<open>Validate\<close> succeeds for
  \<open>eventTime = now + 299\<close>, fails (event time too far ahead) for \<open>eventTime = now + 301\<close>,
  fails (event time not positive) for \<open>eventTime = 0\<close> and for \<open>eventTime = -1\<close>, and
  succeeds for every positive event time up to \<open>now\<close>, however old.
\<close>

theorem clock_skew_boundary:
  assumes "\<not> SchemaVersion_IsEmpty (SchemaVersion m)" and "TrimSpace (EventId m) \<noteq> []"
    and "\<not> EventSource_IsEmpty (EventSource m)" and "\<not> EventType_IsEmpty (EventType m)"
    and clock: "- 299 < sint now" "sint now < 2 ^ 63 - 301"
  shows "fst (Metadata_Validate now (m\<lparr>EventTime := now + 299\<rparr>)) = None
       \<and> fst (Metadata_Validate now (m\<lparr>EventTime := now + 301\<rparr>)) = Some ErrEventTimeTooFarAhead
       \<and> fst (Metadata_Validate now (m\<lparr>EventTime := 0\<rparr>)) = Some ErrEventTimeNotPositive
       \<and> fst (Metadata_Validate now (m\<lparr>EventTime := - 1\<rparr>)) = Some ErrEventTimeNotPositive
       \<and> (\<forall>t. 0 < sint t \<and> sint t \<le> sint now \<longrightarrow>
             fst (Metadata_Validate now (m\<lparr>EventTime := t\<rparr>)) = None)"
proof -
  have ids: "\<not> SchemaVersion_IsEmpty (SchemaVersion (m\<lparr>EventTime := t\<rparr>))"
    "TrimSpace (EventId (m\<lparr>EventTime := t\<rparr>)) \<noteq> []"
    "\<not> EventSource_IsEmpty (EventSource (m\<lparr>EventTime := t\<rparr>))"
    "\<not> EventType_IsEmpty (EventType (m\<lparr>EventTime := t\<rparr>))" for t
    using assms(1-4) by simp_all
  have s299: "sint (now + 299) = sint now + 299"
    using clock by (simp add: sint_add_no_wrap)
  have s300: "sint (now + 300) = sint now + 300"
    using clock by (simp add: sint_add_no_wrap)
  have s301: "sint (now + 301) = sint now + 301"
    using clock by (simp add: sint_add_no_wrap)
  show ?thesis
    using clock
    by (simp add: Metadata_Validate_identity_valid [OF ids] maxFutureSecs_def s299 s300 s301)
qed

theorem clock_skew_boundary_witness:
  "fst (Metadata_Validate 1700000000 (sample_metadata\<lparr>EventTime := 1700000000 + 299\<rparr>)) = None
   \<and> fst (Metadata_Validate 1700000000 (sample_metadata\<lparr>EventTime := 1700000000 + 301\<rparr>)) =
       Some ErrEventTimeTooFarAhead
   \<and> fst (Metadata_Validate 1700000000 (sample_metadata\<lparr>EventTime := 0\<rparr>)) =
       Some ErrEventTimeNotPositive
   \<and> fst (Metadata_Validate 1700000000 (sample_metadata\<lparr>EventTime := - 1\<rparr>)) =
       Some ErrEventTimeNotPositive
   \<and> fst (Metadata_Validate 1700000000 (sample_metadata\<lparr>EventTime := 1\<rparr>)) = None"
proof -
  have ids: "\<not> SchemaVersion_IsEmpty (SchemaVersion sample_metadata)"
    "TrimSpace (EventId sample_metadata) \<noteq> []"
    "\<not> EventSource_IsEmpty (EventSource sample_metadata)"
    "\<not> EventType_IsEmpty (EventType sample_metadata)"
    by (simp_all add: sample_metadata_def string_eval)
  have clock: "- 299 < sint (1700000000 :: int64)" "sint (1700000000 :: int64) < 2 ^ 63 - 301"
    by simp_all
  note th = clock_skew_boundary [OF ids clock]
  from th have "\<forall>t :: int64. 0 < sint t \<and> sint t \<le> sint (1700000000 :: int64) \<longrightarrow>
      fst (Metadata_Validate 1700000000 (sample_metadata\<lparr>EventTime := t\<rparr>)) = None"
    by blast
  then have "0 < sint (1 :: int64) \<and> sint (1 :: int64) \<le> sint (1700000000 :: int64) \<longrightarrow>
      fst (Metadata_Validate 1700000000 (sample_metadata\<lparr>EventTime := 1\<rparr>)) = None"
    by (rule spec)
  then have past: "fst (Metadata_Validate 1700000000 (sample_metadata\<lparr>EventTime := 1\<rparr>)) = None"
    by simp
  from th past show ?thesis by simp
qed

section \<open>The header mapping\<close>

lemma Header_distinct:
  "HeaderSchemaVersion \<noteq> HeaderEventId" "HeaderSchemaVersion \<noteq> HeaderEventSource"
  "HeaderSchemaVersion \<noteq> HeaderEventType" "HeaderSchemaVersion \<noteq> HeaderEventTime"
  "HeaderEventId \<noteq> HeaderEventSource" "HeaderEventId \<noteq> HeaderEventType"
  "HeaderEventId \<noteq> HeaderEventTime" "HeaderEventSource \<noteq> HeaderEventType"
  "HeaderEventSource \<noteq> HeaderEventTime" "HeaderEventType \<noteq> HeaderEventTime"
  by (simp_all add: HeaderSchemaVersion_def HeaderEventId_def HeaderEventSource_def
      HeaderEventType_def HeaderEventTime_def)

text \<open>
  Claim C8. For every metadata value and every header key \<open>k\<close>, the header mapping holds
  at \<open>k\<close>: the schema version under \<open>x-event-schema-version\<close> when the schema version is
  not empty (\<open>IsEmpty\<close> is false), the event id under \<open>x-event-id\<close> when the event id is
  not the empty string, the source under \<open>x-event-source\<close> and the type under
  \<open>x-event-type\<close> when they are not empty, the decimal string of the event time under
  \<open>x-event-time\<close> when the event time is positive; and nothing under any other key or
  when the condition fails.
\<close>

theorem metadataToHeaders_entries:
  "metadataToHeaders (Some m) k =
     (if k = HeaderSchemaVersion
        then (if SchemaVersion_IsEmpty (SchemaVersion m) then None else Some (SchemaVersion m))
      else if k = HeaderEventId
        then (if EventId m = [] then None else Some (EventId m))
      else if k = HeaderEventSource
        then (if EventSource_IsEmpty (EventSource m) then None else Some (EventSource m))
      else if k = HeaderEventType
        then (if EventType_IsEmpty (EventType m) then None else Some (EventType m))
      else if k = HeaderEventTime
        then (if 0 < sint (EventTime m) then Some (FormatInt (sint (EventTime m))) else None)
      else None)"
  using Header_distinct Header_distinct [symmetric]
  by (simp add: metadataToHeaders_def Let_def)

theorem metadataToHeaders_entries_witness:
  "metadataToHeaders (Some sample_metadata) ''x-event-schema-version'' = Some ''v1''
   \<and> metadataToHeaders (Some sample_metadata) ''x-event-id'' = Some ''evt-1''
   \<and> metadataToHeaders (Some sample_metadata) ''x-event-source'' = Some ''orders''
   \<and> metadataToHeaders (Some sample_metadata) ''x-event-type'' = Some ''order.created''
   \<and> metadataToHeaders (Some sample_metadata) ''x-event-time'' = Some ''1700000000''
   \<and> metadataToHeaders (Some sample_metadata) ''content-type'' = None
   \<and> metadataToHeaders (Some (sample_metadata\<lparr>SchemaVersion := ''  '', EventTime := 0\<rparr>))
        ''x-event-schema-version'' = None
   \<and> metadataToHeaders (Some (sample_metadata\<lparr>SchemaVersion := ''  '', EventTime := 0\<rparr>))
        ''x-event-time'' = None"
proof -
  have t: "FormatInt (sint (1700000000 :: int64)) = ''1700000000''"
    by (simp add: FormatInt_def decimal_digits_lt10 decimal_digits_ge10 char_of_eq_iff)
  have k: "HeaderSchemaVersion = ''x-event-schema-version''" "HeaderEventId = ''x-event-id''"
    "HeaderEventSource = ''x-event-source''" "HeaderEventType = ''x-event-type''"
    "HeaderEventTime = ''x-event-time''"
    by (simp_all add: HeaderSchemaVersion_def HeaderEventId_def HeaderEventSource_def
        HeaderEventType_def HeaderEventTime_def)
  have c: "''content-type'' \<noteq> HeaderSchemaVersion" "''content-type'' \<noteq> HeaderEventId"
    "''content-type'' \<noteq> HeaderEventSource" "''content-type'' \<noteq> HeaderEventType"
    "''content-type'' \<noteq> HeaderEventTime"
    by (simp_all add: k)
  have ids: "\<not> SchemaVersion_IsEmpty ''v1''" "\<not> EventSource_IsEmpty ''orders''"
    "\<not> EventType_IsEmpty ''order.created''" "SchemaVersion_IsEmpty ''  ''"
    by (simp_all add: string_eval)
  show ?thesis
    using metadataToHeaders_entries [of sample_metadata HeaderSchemaVersion]
      metadataToHeaders_entries [of sample_metadata HeaderEventId]
      metadataToHeaders_entries [of sample_metadata HeaderEventSource]
      metadataToHeaders_entries [of sample_metadata HeaderEventType]
      metadataToHeaders_entries [of sample_metadata HeaderEventTime]
      metadataToHeaders_entries [of sample_metadata "''content-type''"]
      metadataToHeaders_entries
        [of "sample_metadata\<lparr>SchemaVersion := ''  '', EventTime := 0\<rparr>" HeaderSchemaVersion]
      metadataToHeaders_entries
        [of "sample_metadata\<lparr>SchemaVersion := ''  '', EventTime := 0\<rparr>" HeaderEventTime]
      Header_distinct Header_distinct [symmetric] c ids t
    by (simp add: sample_metadata_def k [symmetric])
qed

section \<open>Decoding\<close>

lemma Metadata_Validate_NoneD:
  assumes "Metadata_Validate now md0 = (None, md)"
  shows "md = Metadata_Normalize md0"
    and "\<not> SchemaVersion_IsEmpty (SchemaVersion md)"
    and "EventId md \<noteq> []"
    and "\<not> EventSource_IsEmpty (EventSource md)"
    and "\<not> EventType_IsEmpty (EventType md)"
    and "0 < sint (EventTime md)"
    and "sint (EventTime md) \<le> sint (now + maxFutureSecs)"
  using assms by (auto simp add: Metadata_Validate_def Let_def split: if_splits)

lemma Metadata_Normalize_fields:
  "SchemaVersion_Normalize (SchemaVersion (Metadata_Normalize m)) = SchemaVersion (Metadata_Normalize m)"
  "EventSource_Normalize (EventSource (Metadata_Normalize m)) = EventSource (Metadata_Normalize m)"
  "EventType_Normalize (EventType (Metadata_Normalize m)) = EventType (Metadata_Normalize m)"
  "SchemaVersion (Metadata_Normalize m) = SchemaVersion_Normalize (SchemaVersion m)"
  "EventSource (Metadata_Normalize m) = EventSource_Normalize (EventSource m)"
  "EventType (Metadata_Normalize m) = EventType_Normalize (EventType m)"
  "EventId (Metadata_Normalize m) = TrimSpace (EventId m)"
  by (simp_all add: Metadata_Normalize_def SchemaVersion_Normalize_def EventSource_Normalize_def
      EventType_Normalize_def Normalize_idem_aux)

lemma Metadata_Normalize_idem: "Metadata_Normalize (Metadata_Normalize m) = Metadata_Normalize m"
  by (simp add: Metadata_Normalize_def SchemaVersion_Normalize_def EventSource_Normalize_def
      EventType_Normalize_def Normalize_idem_aux TrimSpace_idem)

lemma decodeEvent_valid_envelope:
  assumes "data \<noteq> []" and "json_Unmarshal_Envelope X data = Inr env"
    and "Metadata env = Some md0" and valid: "Metadata_Validate now md0 = (None, md)"
    and "Payload env \<noteq> []"
  shows "decodeEvent X now data reg =
     (case reg (buildEventFactoryKey (SchemaVersion md) (EventSource md) (EventType md)) of
        None \<Rightarrow>
          (Returns (Inl (ErrGetEventFactory (ErrEventFactoryNotFound
             (buildEventFactoryKey (SchemaVersion md) (EventSource md) (EventType md))))), reg)
      | Some factory \<Rightarrow> (decodeEvent_instance X md (Payload env) factory, reg))"
proof -
  note v = Metadata_Validate_NoneD [OF valid]
  have n: "SchemaVersion_Normalize (SchemaVersion md) = SchemaVersion md"
    "EventSource_Normalize (EventSource md) = EventSource md"
    "EventType_Normalize (EventType md) = EventType md"
    unfolding v(1) by (rule Metadata_Normalize_fields)+
  have g: "GetEventFactory (SchemaVersion md) (EventSource md) (EventType md) reg =
     (case reg (buildEventFactoryKey (SchemaVersion md) (EventSource md) (EventType md)) of
        Some factory \<Rightarrow> (Inr factory, reg)
      | None \<Rightarrow> (Inl (ErrEventFactoryNotFound
          (buildEventFactoryKey (SchemaVersion md) (EventSource md) (EventType md))), reg))"
    using GetEventFactory_nonempty [OF v(2) v(4) v(5), of reg] by (simp only: n)
  show ?thesis
    using assms(1,2,3,5) by (simp add: decodeEvent_def valid g split: option.splits)
qed

lemma GetEventFactory_registry: "snd (GetEventFactory v s t reg) = reg"
  by (simp add: GetEventFactory_def Let_def split: option.splits)

lemma decodeEvent_registry: "snd (decodeEvent X now data reg) = reg"
proof -
  have "snd (case GetEventFactory v s t reg of
               (Inl err, reg1) \<Rightarrow> (Returns (Inl (ErrGetEventFactory err)), reg1)
             | (Inr factory, reg1) \<Rightarrow> (decodeEvent_instance X md p factory, reg1)) = reg"
    for v s t md p
    using GetEventFactory_registry [of v s t reg]
    by (cases "GetEventFactory v s t reg") (auto split: sum.splits)
  then show ?thesis
    by (simp add: decodeEvent_def split: sum.splits option.splits prod.splits)
qed

text \<open>
  Claim C6. Let the bytes be an envelope that decodes, with metadata that validates and
  a payload that is not empty, and let \<open>ExistsEventFactory\<close> be false for the
  envelope's triple (no factory is registered under its normalized key). Then
  \<open>decodeEvent\<close> fails with the error of \<open>GetEventFactory\<close>,
  \<open>ErrEventFactoryNotFound\<close> for that key (wrapped), and the registry after the call
  is the registry before it.
\<close>

theorem decode_unknown_event_type:
  assumes "data \<noteq> []" and "json_Unmarshal_Envelope X data = Inr env"
    and "Metadata env = Some md0" and valid: "Metadata_Validate now md0 = (None, md)"
    and "Payload env \<noteq> []"
    and unknown: "fst (ExistsEventFactory (SchemaVersion md0) (EventSource md0)
                    (EventType md0) reg) = False"
  shows "decodeEvent X now data reg =
     (Returns (Inl (ErrGetEventFactory (ErrEventFactoryNotFound
        (buildEventFactoryKey (SchemaVersion_Normalize (SchemaVersion md0))
           (EventSource_Normalize (EventSource md0))
           (EventType_Normalize (EventType md0)))))), reg)"
proof -
  note v = Metadata_Validate_NoneD [OF valid]
  have f: "SchemaVersion md = SchemaVersion_Normalize (SchemaVersion md0)"
    "EventSource md = EventSource_Normalize (EventSource md0)"
    "EventType md = EventType_Normalize (EventType md0)"
    unfolding v(1) by (rule Metadata_Normalize_fields)+
  have ne: "\<not> SchemaVersion_IsEmpty (SchemaVersion md0)" "\<not> EventSource_IsEmpty (EventSource md0)"
    "\<not> EventType_IsEmpty (EventType md0)"
    using v(2,4,5) by (simp_all add: f IsEmpty_Normalize)
  from unknown ne have "reg (buildEventFactoryKey (SchemaVersion_Normalize (SchemaVersion md0))
      (EventSource_Normalize (EventSource md0)) (EventType_Normalize (EventType md0))) = None"
    by (simp add: ExistsEventFactory_def Let_def IsEmpty_Normalize split: option.splits)
  then show ?thesis
    by (simp add: decodeEvent_valid_envelope [OF assms(1-5)] f)
qed

lemma sample_bytes_nonempty:
  "sample_wire \<noteq> []" "sample_payload \<noteq> []" "other_id_wire \<noteq> []" "other_id_payload \<noteq> []"
  "other_time_wire \<noteq> []" "other_time_payload \<noteq> []"
  by (simp_all add: sample_wire_def sample_payload_def other_id_wire_def other_id_payload_def
      other_time_wire_def other_time_payload_def)

lemma sample_bytes_distinct:
  "other_id_wire \<noteq> sample_wire" "other_time_wire \<noteq> sample_wire"
  "other_time_wire \<noteq> other_id_wire"
  "other_id_payload \<noteq> sample_payload" "other_time_payload \<noteq> sample_payload"
  "other_time_payload \<noteq> other_id_payload"
  by (simp_all add: sample_wire_def sample_payload_def other_id_wire_def other_id_payload_def
      other_time_wire_def other_time_payload_def)

lemma sample_metadata_valid:
  "Metadata_Validate 1700000000 sample_metadata = (None, sample_metadata)"
  by (simp add: Metadata_Validate_def Metadata_Normalize_def Let_def sample_metadata_def
      maxFutureSecs_def string_eval)

lemma sample_key:
  "buildEventFactoryKey (SchemaVersion sample_metadata) (EventSource sample_metadata)
     (EventType sample_metadata) = ''v1|orders|order.created''"
  by (simp add: sample_metadata_def buildEventFactoryKey_def)

theorem decode_unknown_event_type_witness:
  "decodeEvent sample_collaborators 1700000000 sample_wire Map.empty =
     (Returns (Inl (ErrGetEventFactory (ErrEventFactoryNotFound ''v1|orders|order.created''))),
      Map.empty)"
proof -
  have u: "json_Unmarshal_Envelope sample_collaborators sample_wire =
      Inr \<lparr>Metadata = Some sample_metadata, Payload = sample_payload\<rparr>"
    by (simp add: sample_collaborators_def sample_Unmarshal_Envelope_def)
  have m: "Metadata \<lparr>Metadata = Some sample_metadata, Payload = sample_payload\<rparr> =
      Some sample_metadata"
    by simp
  have p: "Payload \<lparr>Metadata = Some sample_metadata, Payload = sample_payload\<rparr> \<noteq> []"
    by (simp add: sample_bytes_nonempty)
  have x: "fst (ExistsEventFactory (SchemaVersion sample_metadata) (EventSource sample_metadata)
      (EventType sample_metadata) (Map.empty :: OrderCreated EventFactory registry)) = False"
    by (simp add: ExistsEventFactory_def Let_def sample_metadata_def string_eval)
  have k: "buildEventFactoryKey (SchemaVersion_Normalize (SchemaVersion sample_metadata))
      (EventSource_Normalize (EventSource sample_metadata))
      (EventType_Normalize (EventType sample_metadata)) = ''v1|orders|order.created''"
    by (simp add: sample_metadata_def string_eval)
  from decode_unknown_event_type [OF sample_bytes_nonempty(1) u m sample_metadata_valid p x]
  show ?thesis by (simp only: k)
qed

lemma decodeEvent_instance_checked:
  assumes "factory () = Returns (Inr e0)"
    and "json_Unmarshal_Event X payload e0 = Returns (Inr e1)"
    and "Event_Validate X e1 = Returns (None, e)"
    and "Event_Metadata X e = Returns (Some em)"
  shows "decodeEvent_instance X md payload factory =
     (if SchemaVersion em \<noteq> SchemaVersion md
        then Returns (Inl (ErrSchemaVersionMismatch (EventId md)))
      else if EventId em \<noteq> EventId md then Returns (Inl (ErrEventIdMismatch (EventId md)))
      else if EventSource em \<noteq> EventSource md
        then Returns (Inl (ErrEventSourceMismatch (EventId md)))
      else if EventType em \<noteq> EventType md
        then Returns (Inl (ErrEventTypeMismatch (EventId md)))
      else Returns (Inr e))"
  using assms by (simp add: decodeEvent_instance_def)

text \<open>
  Claim C5. Let the bytes be an envelope that decodes, with metadata that validates
  (\<open>md\<close> is the envelope's metadata as the validation leaves it) and a payload that is
  not empty; let a factory be registered for its triple and return an instance, let
  the payload deserialize into that instance without error, let the instance pass its
  own validation and report metadata \<open>em\<close> that agrees with \<open>md\<close> on schema version,
  source and type. If the event ids differ, \<open>decodeEvent\<close> fails with the event-id
  mismatch error. If the event ids agree, \<open>decodeEvent\<close> returns the instance, whatever
  the two event times are: the event time is not compared.
\<close>

theorem decode_event_id_mismatch:
  assumes "data \<noteq> []" and "json_Unmarshal_Envelope X data = Inr env"
    and "Metadata env = Some md0" and "Metadata_Validate now md0 = (None, md)"
    and "Payload env \<noteq> []"
    and registered: "fst (GetEventFactory (SchemaVersion md) (EventSource md) (EventType md) reg)
                       = Inr factory"
    and "factory () = Returns (Inr e0)"
    and "json_Unmarshal_Event X (Payload env) e0 = Returns (Inr e1)"
    and "Event_Validate X e1 = Returns (None, e)"
    and "Event_Metadata X e = Returns (Some em)"
    and same: "SchemaVersion em = SchemaVersion md" "EventSource em = EventSource md"
      "EventType em = EventType md"
  shows "(EventId em \<noteq> EventId md \<longrightarrow>
            decodeEvent X now data reg = (Returns (Inl (ErrEventIdMismatch (EventId md))), reg))
       \<and> (EventId em = EventId md \<longrightarrow> decodeEvent X now data reg = (Returns (Inr e), reg))"
proof -
  note v = Metadata_Validate_NoneD [OF assms(4)]
  have n: "SchemaVersion_Normalize (SchemaVersion md) = SchemaVersion md"
    "EventSource_Normalize (EventSource md) = EventSource md"
    "EventType_Normalize (EventType md) = EventType md"
    unfolding v(1) by (rule Metadata_Normalize_fields)+
  from registered have r:
    "reg (buildEventFactoryKey (SchemaVersion md) (EventSource md) (EventType md)) = Some factory"
    by (simp add: GetEventFactory_nonempty [OF v(2) v(4) v(5)] n split: option.splits)
  show ?thesis
    by (simp add: decodeEvent_valid_envelope [OF assms(1-5)] r
        decodeEvent_instance_checked [where factory = factory, OF assms(7-10)] same)
qed

lemma sample_registered:
  "fst (GetEventFactory (SchemaVersion sample_metadata) (EventSource sample_metadata)
     (EventType sample_metadata) sample_registry) = Inr sample_factory"
  by (simp add: GetEventFactory_def Let_def sample_metadata_def sample_registry_def string_eval)

theorem decode_event_id_mismatch_witness:
  "decodeEvent sample_collaborators 1700000000 other_id_wire sample_registry =
     (Returns (Inl (ErrEventIdMismatch ''evt-1'')), sample_registry)
   \<and> decodeEvent sample_collaborators 1700000000 other_time_wire sample_registry =
     (Returns (Inr (sample_event\<lparr>Meta := sample_metadata\<lparr>EventTime := 1600000000\<rparr>\<rparr>)),
      sample_registry)"
proof -
  let ?e0 = "\<lparr>Meta = \<lparr>SchemaVersion = [], EventId = [], EventSource = [], EventType = [],
    EventTime = 0\<rparr>, OrderNo = []\<rparr>"
  let ?ei = "sample_event\<lparr>Meta := sample_metadata\<lparr>EventId := ''evt-2''\<rparr>\<rparr>"
  let ?et = "sample_event\<lparr>Meta := sample_metadata\<lparr>EventTime := 1600000000\<rparr>\<rparr>"
  have f: "sample_factory () = Returns (Inr ?e0)"
    by (simp add: sample_factory_def)
  have ui: "json_Unmarshal_Envelope sample_collaborators other_id_wire =
      Inr \<lparr>Metadata = Some sample_metadata, Payload = other_id_payload\<rparr>"
    by (simp add: sample_collaborators_def sample_Unmarshal_Envelope_def sample_bytes_distinct)
  have ut: "json_Unmarshal_Envelope sample_collaborators other_time_wire =
      Inr \<lparr>Metadata = Some sample_metadata, Payload = other_time_payload\<rparr>"
    by (simp add: sample_collaborators_def sample_Unmarshal_Envelope_def sample_bytes_distinct)
  have m: "Metadata \<lparr>Metadata = Some sample_metadata, Payload = p\<rparr> = Some sample_metadata" for p
    by simp
  have pi: "Payload \<lparr>Metadata = Some sample_metadata, Payload = other_id_payload\<rparr> \<noteq> []"
    and pt: "Payload \<lparr>Metadata = Some sample_metadata, Payload = other_time_payload\<rparr> \<noteq> []"
    by (simp_all add: sample_bytes_nonempty)
  have di: "json_Unmarshal_Event sample_collaborators
      (Payload \<lparr>Metadata = Some sample_metadata, Payload = other_id_payload\<rparr>) ?e0 =
      Returns (Inr ?ei)"
    by (simp add: sample_collaborators_def sample_Unmarshal_Event_def sample_bytes_distinct)
  have dt: "json_Unmarshal_Event sample_collaborators
      (Payload \<lparr>Metadata = Some sample_metadata, Payload = other_time_payload\<rparr>) ?e0 =
      Returns (Inr ?et)"
    by (simp add: sample_collaborators_def sample_Unmarshal_Event_def sample_bytes_distinct)
  have vi: "Event_Validate sample_collaborators ?ei = Returns (None, ?ei)"
    and vt: "Event_Validate sample_collaborators ?et = Returns (None, ?et)"
    by (simp_all add: sample_collaborators_def)
  have mi: "Event_Metadata sample_collaborators ?ei =
      Returns (Some (sample_metadata\<lparr>EventId := ''evt-2''\<rparr>))"
    and mt: "Event_Metadata sample_collaborators ?et =
      Returns (Some (sample_metadata\<lparr>EventTime := 1600000000\<rparr>))"
    by (simp_all add: sample_collaborators_def)
  have si: "SchemaVersion (sample_metadata\<lparr>EventId := ''evt-2''\<rparr>) = SchemaVersion sample_metadata"
    "EventSource (sample_metadata\<lparr>EventId := ''evt-2''\<rparr>) = EventSource sample_metadata"
    "EventType (sample_metadata\<lparr>EventId := ''evt-2''\<rparr>) = EventType sample_metadata"
    by simp_all
  have st: "SchemaVersion (sample_metadata\<lparr>EventTime := 1600000000\<rparr>) = SchemaVersion sample_metadata"
    "EventSource (sample_metadata\<lparr>EventTime := 1600000000\<rparr>) = EventSource sample_metadata"
    "EventType (sample_metadata\<lparr>EventTime := 1600000000\<rparr>) = EventType sample_metadata"
    by simp_all
  have id: "EventId sample_metadata = ''evt-1''"
    by (simp add: sample_metadata_def)
  from decode_event_id_mismatch [OF sample_bytes_nonempty(3) ui m sample_metadata_valid pi
      sample_registered f di vi mi si]
  have a: "decodeEvent sample_collaborators 1700000000 other_id_wire sample_registry =
      (Returns (Inl (ErrEventIdMismatch ''evt-1'')), sample_registry)"
    by (simp add: id)
  from decode_event_id_mismatch [OF sample_bytes_nonempty(5) ut m sample_metadata_valid pt
      sample_registered f dt vt mt st]
  have b: "decodeEvent sample_collaborators 1700000000 other_time_wire sample_registry =
      (Returns (Inr ?et), sample_registry)"
    by simp
  from a b show ?thesis by (intro conjI)
qed

section \<open>The subscription callback\<close>

lemma wrapHandler_body_gate:
  assumes "TrimSpace (Topic d) \<noteq> []" and "Message d = Some msg" and "Body msg \<noteq> []"
  shows "wrapHandler_body X handler now ctx (Some d) reg =
     (if \<not> HasPrefix (ToLower (TrimSpace (ContentType msg))) ContentTypeJson
      then (Returns (Some (ErrUnsupportedContentType (ToLower (TrimSpace (ContentType msg))))),
            reg)
      else wrapHandler_dispatch X handler now ctx (TrimSpace (Topic d)) (Body msg) reg)"
  using assms by (simp add: wrapHandler_body_def Let_def)

lemma content_type_examples:
  "\<not> HasPrefix (ToLower (TrimSpace ''text/plain'')) ContentTypeJson"
  "ToLower (TrimSpace ''text/plain'') = ''text/plain''"
  "HasPrefix (ToLower (TrimSpace ''application/json; charset=utf-8'')) ContentTypeJson"
  "HasPrefix (ToLower (TrimSpace '' Application/JSON; charset=UTF-8 '')) ContentTypeJson"
  "HasPrefix (ToLower (TrimSpace ''application/json'')) ContentTypeJson"
  by (simp_all add: ContentTypeJson_def string_eval)


lemma sample_decode:
  "decodeEvent sample_collaborators 1700000000 sample_wire sample_registry =
     (Returns (Inr sample_event), sample_registry)"
proof -
  have u: "json_Unmarshal_Envelope sample_collaborators sample_wire =
      Inr \<lparr>Metadata = Some sample_metadata, Payload = sample_payload\<rparr>"
    by (simp add: sample_collaborators_def sample_Unmarshal_Envelope_def)
  have m: "Metadata \<lparr>Metadata = Some sample_metadata, Payload = sample_payload\<rparr> =
      Some sample_metadata"
    by simp
  have p: "Payload \<lparr>Metadata = Some sample_metadata, Payload = sample_payload\<rparr> \<noteq> []"
    by (simp add: sample_bytes_nonempty)
  have i: "decodeEvent_instance sample_collaborators sample_metadata sample_payload
      sample_factory = Returns (Inr sample_event)"
    by (simp add: decodeEvent_instance_def sample_factory_def sample_collaborators_def
        sample_Unmarshal_Event_def sample_event_def)
  show ?thesis
    by (simp add: decodeEvent_valid_envelope [OF sample_bytes_nonempty(1) u m
          sample_metadata_valid p] sample_key sample_registry_def i)
qed

lemma sample_delivery_fields:
  "TrimSpace (Topic (sample_delivery ct)) = ''orders''"
  "Message (sample_delivery ct) =
     Some \<lparr>MsgId = ''evt-1'', Headers = Map.empty, Body = sample_wire, ContentType = ct\<rparr>"
  by (simp_all add: sample_delivery_def string_eval)


text \<open>
  Claim C2. For every delivery, handler, registry, clock and collaborators, the callback
  registered by \<open>Subscribe\<close> returns normally: its outcome is never a panic. Whenever
  its body panics with a value \<open>p\<close> (in the handler or in any other call the body
  makes), the callback returns the error \<open>ErrHandlerPanic p stack\<close>, which carries the
  panic value and the captured stack trace. In particular this is what it returns when
  the message passes the checks, decodes to an event and the handler panics on it.
\<close>

theorem wrapHandler_contains_panics:
  "(\<exists>finalErr. fst (wrapHandler X handler now stack ctx delivery reg) = Returns finalErr)
   \<and> (\<forall>p. fst (wrapHandler_body X handler now ctx delivery reg) = Panics p \<longrightarrow>
          fst (wrapHandler X handler now stack ctx delivery reg) =
            Returns (Some (ErrHandlerPanic p stack)))
   \<and> (\<forall>d msg event p.
          delivery = Some d \<and> TrimSpace (Topic d) \<noteq> [] \<and> Message d = Some msg \<and> Body msg \<noteq> []
          \<and> HasPrefix (ToLower (TrimSpace (ContentType msg))) ContentTypeJson
          \<and> fst (decodeEvent X now (Body msg) reg) = Returns (Inr event)
          \<and> handler ctx (TrimSpace (Topic d)) event = Panics p \<longrightarrow>
          fst (wrapHandler X handler now stack ctx delivery reg) =
            Returns (Some (ErrHandlerPanic p stack)))"
proof (intro conjI allI impI)
  show "\<exists>finalErr. fst (wrapHandler X handler now stack ctx delivery reg) = Returns finalErr"
    by (cases "wrapHandler_body X handler now ctx delivery reg")
      (auto simp add: wrapHandler_def split: outcome.splits)
next
  fix p
  assume "fst (wrapHandler_body X handler now ctx delivery reg) = Panics p"
  then show "fst (wrapHandler X handler now stack ctx delivery reg) =
      Returns (Some (ErrHandlerPanic p stack))"
    by (cases "wrapHandler_body X handler now ctx delivery reg") (simp add: wrapHandler_def)
next
  fix d msg event p
  assume a: "delivery = Some d \<and> TrimSpace (Topic d) \<noteq> [] \<and> Message d = Some msg
    \<and> Body msg \<noteq> [] \<and> HasPrefix (ToLower (TrimSpace (ContentType msg))) ContentTypeJson
    \<and> fst (decodeEvent X now (Body msg) reg) = Returns (Inr event)
    \<and> handler ctx (TrimSpace (Topic d)) event = Panics p"
  then have "wrapHandler_body X handler now ctx delivery reg =
      wrapHandler_dispatch X handler now ctx (TrimSpace (Topic d)) (Body msg) reg"
    by (simp add: wrapHandler_body_gate)
  moreover from a have "fst (wrapHandler_dispatch X handler now ctx (TrimSpace (Topic d))
      (Body msg) reg) = Panics p"
    by (cases "decodeEvent X now (Body msg) reg") (simp add: wrapHandler_dispatch_def)
  ultimately show "fst (wrapHandler X handler now stack ctx delivery reg) =
      Returns (Some (ErrHandlerPanic p stack))"
    by (cases "wrapHandler_dispatch X handler now ctx (TrimSpace (Topic d)) (Body msg) reg")
      (simp add: wrapHandler_def)
qed

theorem wrapHandler_contains_panics_witness:
  "panicking_handler () ''orders'' sample_event = Panics (PanicValue ''handler failed hard'')
   \<and> fst (wrapHandler sample_collaborators panicking_handler 1700000000 ''goroutine 7''
        () (Some (sample_delivery ''application/json'')) sample_registry) =
      Returns (Some (ErrHandlerPanic (PanicValue ''handler failed hard'') ''goroutine 7''))"
proof -
  let ?msg = "\<lparr>MsgId = ''evt-1'', Headers = Map.empty, Body = sample_wire,
    ContentType = ''application/json''\<rparr>"
  have h: "panicking_handler () ''orders'' sample_event =
      Panics (PanicValue ''handler failed hard'')"
    by (simp add: panicking_handler_def)
  have pre: "Some (sample_delivery ''application/json'') = Some (sample_delivery ''application/json'')
      \<and> TrimSpace (Topic (sample_delivery ''application/json'')) \<noteq> []
      \<and> Message (sample_delivery ''application/json'') = Some ?msg
      \<and> Body ?msg \<noteq> []
      \<and> HasPrefix (ToLower (TrimSpace (ContentType ?msg))) ContentTypeJson
      \<and> fst (decodeEvent sample_collaborators 1700000000 (Body ?msg) sample_registry) =
          Returns (Inr sample_event)
      \<and> panicking_handler () (TrimSpace (Topic (sample_delivery ''application/json'')))
          sample_event = Panics (PanicValue ''handler failed hard'')"
    using content_type_examples(5)
    by (simp add: sample_delivery_fields sample_bytes_nonempty sample_decode h)
  from wrapHandler_contains_panics [of sample_collaborators panicking_handler 1700000000
      "''goroutine 7''" "()" "Some (sample_delivery ''application/json'')" sample_registry]
  have "\<forall>d msg event p.
      Some (sample_delivery ''application/json'') = Some d \<and> TrimSpace (Topic d) \<noteq> []
      \<and> Message d = Some msg \<and> Body msg \<noteq> []
      \<and> HasPrefix (ToLower (TrimSpace (ContentType msg))) ContentTypeJson
      \<and> fst (decodeEvent sample_collaborators 1700000000 (Body msg) sample_registry) =
          Returns (Inr event)
      \<and> panicking_handler () (TrimSpace (Topic d)) event = Panics p \<longrightarrow>
      fst (wrapHandler sample_collaborators panicking_handler 1700000000 ''goroutine 7'' ()
        (Some (sample_delivery ''application/json'')) sample_registry) =
      Returns (Some (ErrHandlerPanic p ''goroutine 7''))"
    by (elim conjE)
  then have "fst (wrapHandler sample_collaborators panicking_handler 1700000000
      ''goroutine 7'' () (Some (sample_delivery ''application/json'')) sample_registry) =
      Returns (Some (ErrHandlerPanic (PanicValue ''handler failed hard'') ''goroutine 7''))"
    using pre by blast
  with h show ?thesis by (intro conjI)
qed

section \<open>Encoding and decoding again\<close>

lemma Metadata_Validate_again:
  assumes valid: "Metadata_Validate now md0 = (None, md)"
    and clock: "sint (EventTime md) \<le> sint (now' + maxFutureSecs)"
  shows "Metadata_Validate now' md = (None, md)"
proof -
  note v = Metadata_Validate_NoneD [OF valid]
  have n: "Metadata_Normalize md = md"
    unfolding v(1) by (rule Metadata_Normalize_idem)
  show ?thesis
    using v(2-6) clock by (simp add: Metadata_Validate_def n)
qed

lemma Publish_message_encodes:
  assumes "TrimSpace topic \<noteq> []"
    and "Event_Validate X E0 = Returns (None, E1)"
    and "Event_Metadata X E1 = Returns (Some md0)"
    and "Metadata_Validate now md0 = (None, md)"
    and "json_Marshal_Event X (Event_Metadata_assign X E1 md) = Returns (Inr payload)"
    and "json_Marshal_Envelope X \<lparr>Metadata = Some md, Payload = payload\<rparr> = Inr data"
  shows "Publish_message X now topic (Some E0) =
     Returns (Inr (TrimSpace topic,
       \<lparr>MsgId = EventId md, Headers = metadataToHeaders (Some md), Body = data,
        ContentType = ContentTypeJson\<rparr>))"
  using assms by (simp add: Publish_message_def Let_def)

text \<open>
  Claim C1, amended. Let \<open>Publish\<close> encode the event \<open>E0\<close> at the publisher's clock
  \<open>now\<close>: \<open>Validate()\<close> succeeds, \<open>Metadata()\<close> is not nil and validates to \<open>md\<close>, and
  the two json encodings succeed, giving the envelope bytes \<open>data\<close>; \<open>E\<close> is the event
  as \<open>Publish\<close> leaves it (validated, its metadata normalized in place). Let
  \<open>encoding/json\<close> read back what it wrote (the envelope from \<open>data\<close>, the event \<open>E\<close>
  from the payload into the instance of the registered factory), let \<open>E\<close> pass
  \<open>Validate()\<close> unchanged and report the metadata \<open>md\<close> of the envelope, and let the
  event time be at most 300 seconds ahead of the decoder's clock \<open>now'\<close>. Then
  \<open>decodeEvent\<close> on the bytes that \<open>Publish\<close> hands to the broker returns \<open>E\<close>, the event
  time included, and leaves the registry as it is.
\<close>

theorem encode_decode_roundtrip:
  assumes "TrimSpace topic \<noteq> []"
    and "Event_Validate X E0 = Returns (None, E1)"
    and "Event_Metadata X E1 = Returns (Some md0)"
    and valid: "Metadata_Validate now md0 = (None, md)"
    and E: "E = Event_Metadata_assign X E1 md"
    and "json_Marshal_Event X E = Returns (Inr payload)"
    and "json_Marshal_Envelope X \<lparr>Metadata = Some md, Payload = payload\<rparr> = Inr data"
    and bytes: "data \<noteq> []" "payload \<noteq> []"
    and json_envelope:
      "json_Unmarshal_Envelope X data = Inr \<lparr>Metadata = Some md, Payload = payload\<rparr>"
    and clock: "sint (EventTime md) \<le> sint (now' + maxFutureSecs)"
    and registered: "fst (GetEventFactory (SchemaVersion md) (EventSource md) (EventType md) reg)
                       = Inr factory"
    and "factory () = Returns (Inr e0)"
    and json_event: "json_Unmarshal_Event X payload e0 = Returns (Inr E)"
    and "Event_Validate X E = Returns (None, E)"
    and "Event_Metadata X E = Returns (Some md)"
  shows "Publish_message X now topic (Some E0) =
           Returns (Inr (TrimSpace topic,
             \<lparr>MsgId = EventId md, Headers = metadataToHeaders (Some md), Body = data,
              ContentType = ContentTypeJson\<rparr>))
       \<and> decodeEvent X now' data reg = (Returns (Inr E), reg)
       \<and> EventTime md = EventTime md0"
proof -
  note v = Metadata_Validate_NoneD [OF valid]
  have enc: "Publish_message X now topic (Some E0) =
      Returns (Inr (TrimSpace topic,
        \<lparr>MsgId = EventId md, Headers = metadataToHeaders (Some md), Body = data,
         ContentType = ContentTypeJson\<rparr>))"
    using assms(1-4) assms(6,7) [unfolded E] by (rule Publish_message_encodes)
  have again: "Metadata_Validate now' md = (None, md)"
    using valid clock by (rule Metadata_Validate_again)
  have m: "Metadata \<lparr>Metadata = Some md, Payload = payload\<rparr> = Some md"
    and p: "Payload \<lparr>Metadata = Some md, Payload = payload\<rparr> \<noteq> []"
    using bytes(2) by simp_all
  have n: "SchemaVersion_Normalize (SchemaVersion md) = SchemaVersion md"
    "EventSource_Normalize (EventSource md) = EventSource md"
    "EventType_Normalize (EventType md) = EventType md"
    unfolding v(1) by (rule Metadata_Normalize_fields)+
  from registered have r:
    "reg (buildEventFactoryKey (SchemaVersion md) (EventSource md) (EventType md)) = Some factory"
    by (simp add: GetEventFactory_nonempty [OF v(2) v(4) v(5)] n split: option.splits)
  have inst: "decodeEvent_instance X md payload factory = Returns (Inr E)"
    by (simp add: decodeEvent_instance_checked [where factory = factory, OF assms(13-16)])
  have dec: "decodeEvent X now' data reg = (Returns (Inr E), reg)"
    by (simp add: decodeEvent_valid_envelope [OF bytes(1) json_envelope m again p] r inst)
  have "EventTime md = EventTime md0"
    unfolding v(1) by (rule EventTime_Normalize)
  with enc dec show ?thesis by (intro conjI)
qed

lemma sample_encode_facts:
  "TrimSpace '' orders '' = ''orders''"
  "Event_Validate sample_collaborators sample_event = Returns (None, sample_event)"
  "Event_Metadata sample_collaborators sample_event = Returns (Some sample_metadata)"
  "sample_event = Event_Metadata_assign sample_collaborators sample_event sample_metadata"
  "json_Marshal_Event sample_collaborators sample_event = Returns (Inr sample_payload)"
  "json_Marshal_Envelope sample_collaborators
     \<lparr>Metadata = Some sample_metadata, Payload = sample_payload\<rparr> = Inr sample_wire"
  "json_Unmarshal_Envelope sample_collaborators sample_wire =
     Inr \<lparr>Metadata = Some sample_metadata, Payload = sample_payload\<rparr>"
  "json_Unmarshal_Event sample_collaborators sample_payload e0 = Returns (Inr sample_event)"
  "json_Marshal_Event sample_collaborators
     (Event_Metadata_assign sample_collaborators sample_event sample_metadata) =
     Returns (Inr sample_payload)"
  by (simp_all add: sample_collaborators_def sample_event_def sample_Unmarshal_Envelope_def
      sample_Unmarshal_Event_def string_eval)

theorem encode_decode_roundtrip_witness:
  "Publish_message sample_collaborators 1700000000 '' orders '' (Some sample_event) =
     Returns (Inr (''orders'',
       \<lparr>MsgId = ''evt-1'', Headers = metadataToHeaders (Some sample_metadata),
        Body = sample_wire, ContentType = ''application/json''\<rparr>))
   \<and> decodeEvent sample_collaborators 1700000100 sample_wire sample_registry =
       (Returns (Inr sample_event), sample_registry)
   \<and> EventTime (Meta sample_event) = 1700000000"
proof -
  have t: "TrimSpace '' orders '' \<noteq> []"
    by (simp add: sample_encode_facts)
  have clock: "sint (EventTime sample_metadata) \<le> sint (1700000100 + maxFutureSecs)"
    by (simp add: sample_metadata_def maxFutureSecs_def)
  have f: "sample_factory () =
      Returns (Inr \<lparr>Meta = \<lparr>SchemaVersion = [], EventId = [], EventSource = [],
        EventType = [], EventTime = 0\<rparr>, OrderNo = []\<rparr>)"
    by (simp add: sample_factory_def)
  note th = encode_decode_roundtrip [OF t sample_encode_facts(2,3) sample_metadata_valid
      sample_encode_facts(4,5,6) sample_bytes_nonempty(1,2) sample_encode_facts(7) clock
      sample_registered f sample_encode_facts(8) sample_encode_facts(2,3)]
  have id: "EventId sample_metadata = ''evt-1''" "Meta sample_event = sample_metadata"
    by (simp_all add: sample_metadata_def sample_event_def)
  from th have a: "Publish_message sample_collaborators 1700000000 '' orders ''
      (Some sample_event) =
      Returns (Inr (''orders'',
        \<lparr>MsgId = ''evt-1'', Headers = metadataToHeaders (Some sample_metadata),
         Body = sample_wire, ContentType = ''application/json''\<rparr>))"
    by (simp add: sample_encode_facts(1) id ContentTypeJson_def)
  from th have b: "decodeEvent sample_collaborators 1700000100 sample_wire sample_registry =
      (Returns (Inr sample_event), sample_registry)"
    by simp
  have c: "EventTime (Meta sample_event) = 1700000000"
    by (simp add: sample_metadata_def sample_event_def)
  from a b c show ?thesis by (intro conjI)
qed

text \<open>
  Claim C1 as it is stated fails when the decoder's clock is behind. The sample event
  passes \<open>Validate()\<close>, its metadata is not nil and validates at the publisher's clock
  1700000000, its triple has a registered factory that returns an \<open>OrderCreated\<close>
  instance, and \<open>Publish\<close> encodes it to the envelope bytes \<open>sample_wire\<close>. A decoder
  whose clock reads 1699999000 rejects these bytes: the event time 1700000000 is more
  than 300 seconds ahead of it, so \<open>decodeEvent\<close> returns the invalid-metadata error
  and no event.
\<close>

theorem roundtrip_clock_skew_counterexample:
  "Event_Validate sample_collaborators sample_event = Returns (None, sample_event)
   \<and> Event_Metadata sample_collaborators sample_event = Returns (Some sample_metadata)
   \<and> Metadata_Validate 1700000000 sample_metadata = (None, sample_metadata)
   \<and> fst (GetEventFactory ''v1'' ''orders'' ''order.created'' sample_registry) =
       Inr sample_factory
   \<and> sample_factory () =
       Returns (Inr \<lparr>Meta = \<lparr>SchemaVersion = [], EventId = [], EventSource = [],
         EventType = [], EventTime = 0\<rparr>, OrderNo = []\<rparr>)
   \<and> Publish_message sample_collaborators 1700000000 ''orders'' (Some sample_event) =
       Returns (Inr (''orders'',
         \<lparr>MsgId = ''evt-1'', Headers = metadataToHeaders (Some sample_metadata),
          Body = sample_wire, ContentType = ''application/json''\<rparr>))
   \<and> decodeEvent sample_collaborators 1699999000 sample_wire sample_registry =
       (Returns (Inl (ErrEnvelopeMetadataInvalid ErrEventTimeTooFarAhead)), sample_registry)
   \<and> decodeEvent sample_collaborators 1699999000 sample_wire sample_registry \<noteq>
       (Returns (Inr sample_event), sample_registry)"
proof -
  have g: "fst (GetEventFactory ''v1'' ''orders'' ''order.created'' sample_registry) =
      Inr sample_factory"
    using sample_registered by (simp add: sample_metadata_def)
  have f: "sample_factory () =
      Returns (Inr \<lparr>Meta = \<lparr>SchemaVersion = [], EventId = [], EventSource = [],
        EventType = [], EventTime = 0\<rparr>, OrderNo = []\<rparr>)"
    by (simp add: sample_factory_def)
  have t: "TrimSpace ''orders'' \<noteq> []" "TrimSpace ''orders'' = ''orders''"
    by (simp_all add: string_eval)
  have enc: "Publish_message sample_collaborators 1700000000 ''orders'' (Some sample_event) =
      Returns (Inr (''orders'',
        \<lparr>MsgId = ''evt-1'', Headers = metadataToHeaders (Some sample_metadata),
         Body = sample_wire, ContentType = ''application/json''\<rparr>))"
    using Publish_message_encodes [OF t(1) sample_encode_facts(2,3) sample_metadata_valid
        sample_encode_facts(9) sample_encode_facts(6)]
    by (simp add: t(2) sample_metadata_def ContentTypeJson_def)
  have late: "Metadata_Validate 1699999000 sample_metadata =
      (Some ErrEventTimeTooFarAhead, sample_metadata)"
    by (simp add: Metadata_Validate_def Metadata_Normalize_def Let_def sample_metadata_def
        maxFutureSecs_def string_eval)
  have dec: "decodeEvent sample_collaborators 1699999000 sample_wire sample_registry =
      (Returns (Inl (ErrEnvelopeMetadataInvalid ErrEventTimeTooFarAhead)), sample_registry)"
    by (simp add: decodeEvent_def sample_bytes_nonempty sample_encode_facts(7) late)
  from sample_encode_facts(2,3) sample_metadata_valid g f enc dec show ?thesis
    by simp
qed

text \<open>
  The hypothesis of the amended claim that the decoded event reports the metadata of
  the envelope is needed as well, with equal clocks. \<open>uppercase_event\<close> passes
  \<open>Validate()\<close>, and its metadata validates (to the normalized \<open>sample_metadata\<close>); its
  \<open>Metadata()\<close> returns a copy, so the payload keeps the schema version \<open>V1\<close> while the
  envelope carries \<open>v1\<close>. \<open>decodeEvent\<close> compares the two and fails with the
  schema-version mismatch.
\<close>

lemma roundtrip_copied_metadata_example:
  "Event_Validate copying_collaborators uppercase_event = Returns (None, uppercase_event)
   \<and> Event_Metadata copying_collaborators uppercase_event =
       Returns (Some (sample_metadata\<lparr>SchemaVersion := ''V1''\<rparr>))
   \<and> Metadata_Validate 1700000000 (sample_metadata\<lparr>SchemaVersion := ''V1''\<rparr>) =
       (None, sample_metadata)
   \<and> Publish_message copying_collaborators 1700000000 ''orders'' (Some uppercase_event) =
       Returns (Inr (''orders'',
         \<lparr>MsgId = ''evt-1'', Headers = metadataToHeaders (Some sample_metadata),
          Body = uppercase_wire, ContentType = ''application/json''\<rparr>))
   \<and> decodeEvent copying_collaborators 1700000000 uppercase_wire sample_registry =
       (Returns (Inl (ErrSchemaVersionMismatch ''evt-1'')), sample_registry)"
proof -
  have v: "Event_Validate copying_collaborators uppercase_event = Returns (None, uppercase_event)"
    by (simp add: copying_collaborators_def)
  have m: "Event_Metadata copying_collaborators uppercase_event =
      Returns (Some (sample_metadata\<lparr>SchemaVersion := ''V1''\<rparr>))"
    by (simp add: copying_collaborators_def uppercase_event_def)
  have mv: "Metadata_Validate 1700000000 (sample_metadata\<lparr>SchemaVersion := ''V1''\<rparr>) =
      (None, sample_metadata)"
    by (simp add: Metadata_Validate_def Metadata_Normalize_def Let_def sample_metadata_def
        maxFutureSecs_def string_eval)
  have t: "TrimSpace ''orders'' \<noteq> []" "TrimSpace ''orders'' = ''orders''"
    by (simp_all add: string_eval)
  have me: "json_Marshal_Event copying_collaborators
      (Event_Metadata_assign copying_collaborators uppercase_event sample_metadata) =
      Returns (Inr uppercase_payload)"
    by (simp add: copying_collaborators_def)
  have mw: "json_Marshal_Envelope copying_collaborators
      \<lparr>Metadata = Some sample_metadata, Payload = uppercase_payload\<rparr> = Inr uppercase_wire"
    by (simp add: copying_collaborators_def)
  have enc: "Publish_message copying_collaborators 1700000000 ''orders''
      (Some uppercase_event) =
      Returns (Inr (''orders'',
        \<lparr>MsgId = ''evt-1'', Headers = metadataToHeaders (Some sample_metadata),
         Body = uppercase_wire, ContentType = ''application/json''\<rparr>))"
    using Publish_message_encodes [OF t(1) v m mv me mw]
    by (simp add: t(2) sample_metadata_def ContentTypeJson_def)
  have w: "uppercase_wire \<noteq> []" "uppercase_payload \<noteq> []"
    by (simp_all add: uppercase_wire_def uppercase_payload_def)
  have u: "json_Unmarshal_Envelope copying_collaborators uppercase_wire =
      Inr \<lparr>Metadata = Some sample_metadata, Payload = uppercase_payload\<rparr>"
    by (simp add: copying_collaborators_def)
  have em: "Metadata \<lparr>Metadata = Some sample_metadata, Payload = uppercase_payload\<rparr> =
      Some sample_metadata"
    and ep: "Payload \<lparr>Metadata = Some sample_metadata, Payload = uppercase_payload\<rparr> \<noteq> []"
    using w(2) by simp_all
  have i: "decodeEvent_instance copying_collaborators sample_metadata uppercase_payload
      sample_factory = Returns (Inl (ErrSchemaVersionMismatch ''evt-1''))"
    by (simp add: decodeEvent_instance_def sample_factory_def copying_collaborators_def
        uppercase_event_def sample_metadata_def)
  have dec: "decodeEvent copying_collaborators 1700000000 uppercase_wire sample_registry =
      (Returns (Inl (ErrSchemaVersionMismatch ''evt-1'')), sample_registry)"
    by (simp add: decodeEvent_valid_envelope [OF w(1) u em sample_metadata_valid ep]
        sample_key sample_registry_def i)
  from v m mv enc dec show ?thesis by (intro conjI)
qed

end
